theory Spec2Isabelle
  imports Complex_Main
begin

section \<open>RDF terms and graphs\<close>

text \<open>
  The two scripts build and read rdflib graphs. A graph is a set of triples of nodes; a
  node is a URI reference, a blank node or a literal. A literal has a lexical form, a
  language tag and a datatype URI. The graph is kept as the list of its
  triples without repetition, so that a loop over the graph is a recursion over the list;
  every statement about a graph below is about the set of that list.
\<close>

datatype node =
    URIRef string
  | BNode string
  | Literal string "string option" "string option"

type_synonym triple = "node \<times> node \<times> node"

type_synonym graph = "triple list"

definition add :: "graph \<Rightarrow> triple \<Rightarrow> graph" where
  "add g t = (if t \<in> set g then g else g @ [t])"

text \<open>\<open>str(node)\<close>: the URI, the blank node's label, or the literal's lexical form.\<close>

fun py_str :: "node \<Rightarrow> string" where
  "py_str (URIRef u) = u"
| "py_str (BNode b) = b"
| "py_str (Literal l _ _) = l"

subsection \<open>Namespaces and vocabulary\<close>

definition MH :: "string \<Rightarrow> node" where
  "MH key = URIRef (''http://example.org/mental_health#'' @ key)"

definition WD :: "string \<Rightarrow> node" where
  "WD key = URIRef (''http://www.wikidata.org/entity/'' @ key)"

definition ex :: "string \<Rightarrow> node" where
  "ex key = URIRef (''http://example.org/ontology#'' @ key)"

definition RDF_type :: node where
  "RDF_type = URIRef ''http://www.w3.org/1999/02/22-rdf-syntax-ns#type''"

definition RDFS_label :: node where
  "RDFS_label = URIRef ''http://www.w3.org/2000/01/rdf-schema#label''"

definition SKOS_prefLabel :: node where
  "SKOS_prefLabel = URIRef ''http://www.w3.org/2004/02/skos/core#prefLabel''"

definition OWL_sameAs :: node where
  "OWL_sameAs = URIRef ''http://www.w3.org/2002/07/owl#sameAs''"

definition XSD_integer :: string where
  "XSD_integer = ''http://www.w3.org/2001/XMLSchema#integer''"

definition XSD_float :: string where
  "XSD_float = ''http://www.w3.org/2001/XMLSchema#float''"

subsection \<open>Decimal text of a counter\<close>

text \<open>
  Identifiers and counters are non-negative Python integers; an f-string formats them as
  decimal digits without leading zeros.
\<close>

definition digit_char :: "nat \<Rightarrow> char" where
  "digit_char d = char_of (48 + d)"

function str_nat :: "nat \<Rightarrow> string" where
  "str_nat n = (if n < 10 then [digit_char n] else str_nat (n div 10) @ [digit_char (n mod 10)])"
  by pat_completeness auto
termination
  by (relation "measure (\<lambda>n. n)") auto

declare str_nat.simps [simp del]

section \<open>The graph generator (generate\_snowflake\_ttl.py)\<close>

text \<open>
  One row of the data frame. What the loop does with a cell decides how the row keeps it:
  \<^item> \<open>User_ID\<close> is only formatted into URIs by an f-string: the row keeps the text the
    f-string gives for the cell.
  \<^item> The ten dimension columns are dictionary keys and become labels by \<open>Literal(value)\<close>.
    The row keeps them as text: the model covers rows whose dimension cells are Python
    strings, for which two keys are equal exactly when the texts are and the label is the
    plain literal of the text. A row with a missing or numeric cell in a dimension column
    is not an input of the model.
  \<^item> The condition cell and the five numeric cells are only handed to rdflib's literal
    constructor. They are kept as they are, as values of a type \<open>'c\<close> of cells, and the
    constructor is a parameter of the generator: \<open>literal c None\<close> is \<open>Literal(c)\<close> and
    \<open>literal c (Some dt)\<close> is \<open>Literal(c, datatype=dt)\<close>. What lexical form and datatype
    rdflib gives the literal (it normalises text that parses in the datatype) is the
    constructor's business, not the generator's. The constructor returns a literal for
    every cell a data frame holds (text, a number, a missing value): text that does not
    parse in the datatype gives an ill-typed literal, not an exception.
\<close>

record 'c row =
  User_ID :: string
  Age :: 'c
  Gender :: string
  Occupation :: string
  Country :: string
  Mental_Health_Condition :: 'c
  Severity :: string
  Consultation_History :: string
  Stress_Level :: string
  Medication_Usage :: string
  Diet_Quality :: string
  Smoking_Habit :: string
  Alcohol_Consumption :: string
  Sleep_Hours :: 'c
  Work_Hours :: 'c
  Physical_Activity_Hours :: 'c
  Social_Media_Usage :: 'c

type_synonym 'c literal_constructor = "'c \<Rightarrow> string option \<Rightarrow> node"

text \<open>
  A per-dimension mapping table: a Python dict from the raw value (a string) to its
  identifier, kept as an association list in insertion order. A key is only ever inserted
  when absent.
\<close>

type_synonym dim_map = "(string \<times> nat) list"

record gen_state =
  abox :: graph
  gender_map :: dim_map
  occupation_map :: dim_map
  country_map :: dim_map
  severity_map :: dim_map
  consultation_map :: dim_map
  stress_map :: dim_map
  medication_map :: dim_map
  diet_map :: dim_map
  smoking_map :: dim_map
  alcohol_map :: dim_map
  mental_health_counter :: nat
  lifestyle_counter :: nat

text \<open>
  The block the loop repeats for every dimension:
  \<^verbatim>\<open>
    if value not in the_map:
        the_id = len(the_map) + 1
        the_map[value] = the_id
        uri = MH[f'prefix/{the_id}']
        abox.add((uri, RDF.type, cls))
        abox.add((uri, SKOS.prefLabel, Literal(value)))
    ... MH[f'prefix/{the_map[value]}'] ...
  \<close>
  It returns the table, the graph and the identifier \<open>the_map[value]\<close> that the link
  triple after the block uses; the key is present at that point on both branches. The
  value is a string, so \<open>Literal(value)\<close> is the plain literal of that string.
\<close>

definition dim_block ::
  "string \<Rightarrow> node \<Rightarrow> dim_map \<Rightarrow> string \<Rightarrow> graph \<Rightarrow> dim_map \<times> graph \<times> nat" where
  "dim_block prefix cls the_map v g =
     (case map_of the_map v of
        None \<Rightarrow>
          (let the_id = length the_map + 1;
               uri = MH (prefix @ str_nat the_id)
           in (the_map @ [(v, the_id)],
               add (add g (uri, RDF_type, cls)) (uri, SKOS_prefLabel, Literal v None None),
               the_id))
      | Some the_id \<Rightarrow> (the_map, g, the_id))"

definition country_wd_map :: "(string \<times> node option) list" where
  "country_wd_map =
     [(''Australia'', Some (WD ''Q408'')), (''USA'', Some (WD ''Q30'')),
      (''India'', Some (WD ''Q668'')), (''UK'', Some (WD ''Q145'')),
      (''Canada'', Some (WD ''Q16'')), (''Germany'', Some (WD ''Q183'')),
      (''Other'', None)]"

text \<open>The country block adds the Wikidata link for the names of the fixed table.\<close>

definition country_block :: "dim_map \<Rightarrow> string \<Rightarrow> graph \<Rightarrow> dim_map \<times> graph \<times> nat" where
  "country_block the_map v g =
     (case map_of the_map v of
        None \<Rightarrow>
          (let country_id = length the_map + 1;
               country_uri = MH (''country/'' @ str_nat country_id);
               g1 = add (add g (country_uri, RDF_type, MH ''Country''))
                        (country_uri, SKOS_prefLabel, Literal v None None);
               g2 = (case map_of country_wd_map v of
                       Some (Some wd) \<Rightarrow> add g1 (country_uri, OWL_sameAs, wd)
                     | _ \<Rightarrow> g1)
           in (the_map @ [(v, country_id)], g2, country_id))
      | Some country_id \<Rightarrow> (the_map, g, country_id))"

text \<open>The body of the loop over the rows, statement by statement.\<close>

definition process_row :: "'c literal_constructor \<Rightarrow> gen_state \<Rightarrow> 'c row \<Rightarrow> gen_state" where
  "process_row literal st r =
    (let user_uri = MH (''user/'' @ User_ID r);
         g = add (abox st) (user_uri, RDF_type, MH ''Person'');
         g = add g (user_uri, MH ''hasAge'', literal (Age r) (Some XSD_integer))
     in case dim_block ''gender/'' (MH ''Gender'') (gender_map st) (Gender r) g of
          (gender_map', g, gender_id) \<Rightarrow>
     let g = add g (user_uri, MH ''hasGender'', MH (''gender/'' @ str_nat gender_id))
     in case dim_block ''occupation/'' (MH ''Occupation'') (occupation_map st) (Occupation r) g of
          (occupation_map', g, occ_id) \<Rightarrow>
     let g = add g (user_uri, MH ''hasOccupation'', MH (''occupation/'' @ str_nat occ_id))
     in case country_block (country_map st) (Country r) g of
          (country_map', g, country_id) \<Rightarrow>
     let g = add g (user_uri, MH ''hasCountry'', MH (''country/'' @ str_nat country_id));
         mh_uri = MH (''mental_health/'' @ str_nat (mental_health_counter st));
         g = add g (mh_uri, RDF_type, MH ''MentalHealth'');
         g = add g (mh_uri, RDFS_label, literal (Mental_Health_Condition r) None);
         g = add g (user_uri, MH ''hasMentalHealth'', mh_uri)
     in case dim_block ''severity/'' (MH ''Severity'') (severity_map st) (Severity r) g of
          (severity_map', g, sev_id) \<Rightarrow>
     let g = add g (mh_uri, MH ''hasSeverity'', MH (''severity/'' @ str_nat sev_id))
     in case dim_block ''consultation/'' (MH ''Consultation'') (consultation_map st)
               (Consultation_History r) g of
          (consultation_map', g, cons_id) \<Rightarrow>
     let g = add g (mh_uri, MH ''hasConsultationHistory'',
                    MH (''consultation/'' @ str_nat cons_id))
     in case dim_block ''stress/'' (MH ''StressLevel'') (stress_map st) (Stress_Level r) g of
          (stress_map', g, stress_id) \<Rightarrow>
     let g = add g (mh_uri, MH ''hasStressLevel'', MH (''stress/'' @ str_nat stress_id))
     in case dim_block ''medication/'' (MH ''Medication'') (medication_map st)
               (Medication_Usage r) g of
          (medication_map', g, med_id) \<Rightarrow>
     let g = add g (mh_uri, MH ''hasMedicationUsage'', MH (''medication/'' @ str_nat med_id));
         ls_uri = MH (''lifestyle/'' @ str_nat (lifestyle_counter st));
         g = add g (ls_uri, RDF_type, MH ''Lifestyle'');
         g = add g (user_uri, MH ''hasLifestyle'', ls_uri)
     in case dim_block ''diet/'' (MH ''DietQuality'') (diet_map st) (Diet_Quality r) g of
          (diet_map', g, diet_id) \<Rightarrow>
     let g = add g (ls_uri, MH ''hasDietQuality'', MH (''diet/'' @ str_nat diet_id))
     in case dim_block ''smoking/'' (MH ''SmokingHabit'') (smoking_map st) (Smoking_Habit r) g of
          (smoking_map', g, smoke_id) \<Rightarrow>
     let g = add g (ls_uri, MH ''hasSmokingHabit'', MH (''smoking/'' @ str_nat smoke_id))
     in case dim_block ''alcohol/'' (MH ''AlcoholConsumption'') (alcohol_map st)
               (Alcohol_Consumption r) g of
          (alcohol_map', g, alc_id) \<Rightarrow>
     let g = add g (ls_uri, MH ''hasAlcoholConsumption'', MH (''alcohol/'' @ str_nat alc_id));
         meas_uri = MH (''measurement/'' @ User_ID r);
         g = add g (meas_uri, RDF_type, MH ''Measurement'');
         g = add g (meas_uri, MH ''hasSleepHours'', literal (Sleep_Hours r) (Some XSD_float));
         g = add g (meas_uri, MH ''hasWorkHours'', literal (Work_Hours r) (Some XSD_integer));
         g = add g (meas_uri, MH ''hasPhysicalActivityHours'',
                    literal (Physical_Activity_Hours r) (Some XSD_integer));
         g = add g (meas_uri, MH ''hasSocialMediaUsage'',
                    literal (Social_Media_Usage r) (Some XSD_float));
         g = add g (user_uri, ex ''hasMeasurement'', meas_uri)
     in \<lparr> abox = g,
          gender_map = gender_map', occupation_map = occupation_map',
          country_map = country_map', severity_map = severity_map',
          consultation_map = consultation_map', stress_map = stress_map',
          medication_map = medication_map', diet_map = diet_map',
          smoking_map = smoking_map', alcohol_map = alcohol_map',
          mental_health_counter = mental_health_counter st + 1,
          lifestyle_counter = lifestyle_counter st + 1 \<rparr>)"

definition initial_state :: gen_state where
  "initial_state =
     \<lparr> abox = [],
       gender_map = [], occupation_map = [], country_map = [], severity_map = [],
       consultation_map = [], stress_map = [], medication_map = [], diet_map = [],
       smoking_map = [], alcohol_map = [],
       mental_health_counter = 1, lifestyle_counter = 1 \<rparr>"

text \<open>The whole pass: \<open>for index, row in df.iterrows()\<close> from the empty tables.\<close>

definition generate :: "'c literal_constructor \<Rightarrow> 'c row list \<Rightarrow> gen_state" where
  "generate literal rows = foldl (process_row literal) initial_state rows"

section \<open>The benchmark runner (QueryBenchmark.py)\<close>

subsection \<open>Python string operations the subsampler uses\<close>

text \<open>
  Strings are lists of 8-bit characters: a character is a code point below 256, and text
  with a code point above 255 is not an input of the model. \<open>needle in haystack\<close> is
  the substring test.
\<close>

fun startswith :: "string \<Rightarrow> string \<Rightarrow> bool" where
  "startswith [] hay = True"
| "startswith (n # ns) [] = False"
| "startswith (n # ns) (c # cs) = (n = c \<and> startswith ns cs)"

fun contains :: "string \<Rightarrow> string \<Rightarrow> bool" where
  "contains needle [] = (needle = [])"
| "contains needle (c # cs) = (startswith needle (c # cs) \<or> contains needle cs)"

text \<open>\<open>s.split(sep)\<close> for a one-character separator: never an empty list.\<close>

fun py_split :: "char \<Rightarrow> string \<Rightarrow> string list" where
  "py_split sep [] = [[]]"
| "py_split sep (c # cs) =
     (if c = sep then [] # py_split sep cs
      else (case py_split sep cs of
              w # ws \<Rightarrow> (c # w) # ws
            | [] \<Rightarrow> [[c]]))"

text \<open>
  \<open>int(s)\<close> on a string, base ten: surrounding blanks are skipped, one sign is
  allowed, then decimal digits with single underscores between digits; anything else
  raises ValueError (\<open>None\<close>). The blanks \<open>int\<close> skips are the characters 9 to 13
  and 32 and, beyond ASCII, the code points 133 and 160 (the other blanks and all other
  decimal digits of Unicode lie above 255); the separators 28 to 31 are not skipped.
  CPython's default limit of 4300 digits for the conversion is part of the model.
\<close>

definition py_isspace :: "char \<Rightarrow> bool" where
  "py_isspace c = ((of_char c :: nat) \<in> {9, 10, 11, 12, 13, 32, 133, 160})"

definition py_strip :: "string \<Rightarrow> string" where
  "py_strip s = rev (dropWhile py_isspace (rev (dropWhile py_isspace s)))"

definition py_isdigit :: "char \<Rightarrow> bool" where
  "py_isdigit c = (48 \<le> (of_char c :: nat) \<and> (of_char c :: nat) \<le> 57)"

fun digits_acc :: "nat \<Rightarrow> string \<Rightarrow> nat option" where
  "digits_acc acc [] = Some acc"
| "digits_acc acc (c # cs) =
     (if py_isdigit c then digits_acc (10 * acc + (of_char c - 48)) cs
      else if c = CHR ''_'' then
        (case cs of
           d # ds \<Rightarrow> if py_isdigit d then digits_acc acc cs else None
         | [] \<Rightarrow> None)
      else None)"

definition max_str_digits :: nat where
  "max_str_digits = 4300"

definition py_digits :: "string \<Rightarrow> nat option" where
  "py_digits s =
     (case s of
        [] \<Rightarrow> None
      | c # cs \<Rightarrow>
          if \<not> py_isdigit c then None
          else if length (filter py_isdigit s) > max_str_digits then None
          else digits_acc 0 s)"

definition py_int :: "string \<Rightarrow> int option" where
  "py_int s =
     (case py_strip s of
        [] \<Rightarrow> None
      | c # cs \<Rightarrow>
          if c = CHR ''-'' then map_option (\<lambda>n. - int n) (py_digits cs)
          else if c = CHR ''+'' then map_option int (py_digits cs)
          else map_option int (py_digits (c # cs)))"

subsection \<open>Graph objects\<close>

text \<open>
  The benchmark holds several graph objects at once (the loaded graph and each
  subsample), and \<open>create_subsampled_graph\<close> writes into one while it reads another.
  Graph objects therefore live in a store: a reference is a number, \<open>allocated\<close> is the
  next unused one, and \<open>ticks\<close> counts the calls of \<open>time.time()\<close> so far.
\<close>

record world =
  graphs :: "nat \<Rightarrow> graph"
  allocated :: nat
  ticks :: nat

datatype error = ValueError | QueryError string

text \<open>\<open>Graph()\<close>: a new, empty graph object.\<close>

definition new_graph :: "world \<Rightarrow> nat \<times> world" where
  "new_graph w =
     (allocated w, w\<lparr>graphs := (graphs w)(allocated w := []), allocated := Suc (allocated w)\<rparr>)"

text \<open>\<open>g.add(t)\<close> on the graph object \<open>g\<close>.\<close>

definition graph_add :: "world \<Rightarrow> nat \<Rightarrow> triple \<Rightarrow> world" where
  "graph_add w g t = w\<lparr>graphs := (graphs w)(g := add (graphs w g) t)\<rparr>"

subsection \<open>The subsampler\<close>

text \<open>The test of the \<open>elif\<close> branch, on the text of the subject.\<close>

definition dimension_subject :: "string \<Rightarrow> bool" where
  "dimension_subject s =
     (contains ''gender/'' s \<or> contains ''occupation/'' s \<or> contains ''country/'' s \<or>
      contains ''severity/'' s \<or> contains ''consultation/'' s \<or> contains ''stress/'' s \<or>
      contains ''medication/'' s \<or> contains ''diet/'' s \<or> contains ''smoking/'' s \<or>
      contains ''alcohol/'' s)"

text \<open>
  The loop \<open>for s, p, o in graph\<close> over the triples of the input graph, writing into
  the graph object \<open>sub_g\<close>. \<open>int\<close> raises ValueError on a subject that contains
  \<open>user/\<close> and does not end in an integer; nothing catches it. Every operation returns
  its outcome (a value, or the exception raised) together with the store it leaves.
\<close>

fun subsample_loop :: "triple list \<Rightarrow> int \<Rightarrow> nat \<Rightarrow> world \<Rightarrow> error option \<times> world" where
  "subsample_loop [] max_user_id sub_g w = (None, w)"
| "subsample_loop ((s, p, ob) # ts) max_user_id sub_g w =
     (if contains ''user/'' (py_str s) then
        (case py_int (last (py_split CHR ''/'' (py_str s))) of
           None \<Rightarrow> (Some ValueError, w)
         | Some i \<Rightarrow>
             if i \<le> max_user_id then
               subsample_loop ts max_user_id sub_g (graph_add w sub_g (s, p, ob))
             else if dimension_subject (py_str s) then
               subsample_loop ts max_user_id sub_g (graph_add w sub_g (s, p, ob))
             else subsample_loop ts max_user_id sub_g w)
      else if dimension_subject (py_str s) then
        subsample_loop ts max_user_id sub_g (graph_add w sub_g (s, p, ob))
      else subsample_loop ts max_user_id sub_g w)"

definition create_subsampled_graph :: "world \<Rightarrow> nat \<Rightarrow> int \<Rightarrow> (error + nat) \<times> world" where
  "create_subsampled_graph w graph max_user_id =
     (case new_graph w of
        (sub_g, w1) \<Rightarrow>
          (case subsample_loop (graphs w1 graph) max_user_id sub_g w1 of
             (Some e, w2) \<Rightarrow> (Inl e, w2)
           | (None, w2) \<Rightarrow> (Inr sub_g, w2)))"

subsection \<open>The query catalog\<close>

definition newline :: char where
  "newline = CHR 0x0A"

definition roll_up_sleep_by_country :: string where
  \<open>roll_up_sleep_by_country =
     [newline] @
     ''    PREFIX mh: <http://example.org/mental_health#>'' @ [newline] @
     ''    PREFIX ex: <http://example.org/ontology#>'' @ [newline] @
     ''    PREFIX xsd: <http://www.w3.org/2001/XMLSchema#>'' @ [newline] @
     [newline] @
     ''    SELECT ?country (AVG(?sleepHours) AS ?avgSleepHours)'' @ [newline] @
     ''    WHERE {'' @ [newline] @
     ''      ?user a mh:Person ;'' @ [newline] @
     ''            ex:hasMeasurement ?measurement ;'' @ [newline] @
     ''            mh:hasCountry ?countryUri .'' @ [newline] @
     ''      ?measurement mh:hasSleepHours ?sleepHours .'' @ [newline] @
     ''      ?countryUri skos:prefLabel ?country .'' @ [newline] @
     ''      FILTER (datatype(?sleepHours) = xsd:float)'' @ [newline] @
     ''    }'' @ [newline] @
     ''    GROUP BY ?country'' @ [newline] @
     ''    ORDER BY ?country'' @ [newline] @
     ''    ''\<close>

definition drill_down_work_by_country_gender :: string where
  \<open>drill_down_work_by_country_gender =
     [newline] @
     ''    PREFIX mh: <http://example.org/mental_health#>'' @ [newline] @
     ''    PREFIX ex: <http://example.org/ontology#>'' @ [newline] @
     ''    PREFIX xsd: <http://www.w3.org/2001/XMLSchema#>'' @ [newline] @
     [newline] @
     ''    SELECT ?country ?gender (AVG(?workHours) AS ?avgWorkHours)'' @ [newline] @
     ''    WHERE {'' @ [newline] @
     ''      ?user a mh:Person ;'' @ [newline] @
     ''            ex:hasMeasurement ?measurement ;'' @ [newline] @
     ''            mh:hasCountry ?countryUri ;'' @ [newline] @
     ''            mh:hasGender ?genderUri .'' @ [newline] @
     ''      ?measurement mh:hasWorkHours ?workHours .'' @ [newline] @
     ''      ?countryUri skos:prefLabel ?country .'' @ [newline] @
     ''      ?genderUri skos:prefLabel ?gender .'' @ [newline] @
     ''      FILTER (datatype(?workHours) = xsd:integer)'' @ [newline] @
     ''    }'' @ [newline] @
     ''    GROUP BY ?country ?gender'' @ [newline] @
     ''    ORDER BY ?country ?gender'' @ [newline] @
     ''    ''\<close>

definition slice_high_stress :: string where
  \<open>slice_high_stress =
     [newline] @
     ''    PREFIX mh: <http://example.org/mental_health#>'' @ [newline] @
     ''    PREFIX ex: <http://example.org/ontology#>'' @ [newline] @
     ''    PREFIX xsd: <http://www.w3.org/2001/XMLSchema#>'' @ [newline] @
     [newline] @
     ''    SELECT ?user ?country ?sleepHours'' @ [newline] @
     ''    WHERE {'' @ [newline] @
     ''      ?user a mh:Person ;'' @ [newline] @
     ''            mh:hasMentalHealth ?mh ;'' @ [newline] @
     ''            mh:hasCountry ?countryUri ;'' @ [newline] @
     ''            ex:hasMeasurement ?measurement .'' @ [newline] @
     ''      ?mh mh:hasStressLevel ?stressUri .'' @ [newline] @
     ''      ?stressUri skos:prefLabel "High" .'' @ [newline] @
     ''      ?measurement mh:hasSleepHours ?sleepHours .'' @ [newline] @
     ''      ?countryUri skos:prefLabel ?country .'' @ [newline] @
     ''      FILTER (datatype(?sleepHours) = xsd:float)'' @ [newline] @
     ''    }'' @ [newline] @
     ''    ORDER BY ?country ?user'' @ [newline] @
     ''    ''\<close>

definition dice_medium_severity_australia :: string where
  \<open>dice_medium_severity_australia =
     [newline] @
     ''    PREFIX mh: <http://example.org/mental_health#>'' @ [newline] @
     ''    PREFIX ex: <http://example.org/ontology#>'' @ [newline] @
     ''    PREFIX xsd: <http://www.w3.org/2001/XMLSchema#>'' @ [newline] @
     [newline] @
     ''    SELECT ?user ?age ?workHours'' @ [newline] @
     ''    WHERE {'' @ [newline] @
     ''      ?user a mh:Person ;'' @ [newline] @
     ''            mh:hasMentalHealth ?mh ;'' @ [newline] @
     ''            mh:hasCountry ?countryUri ;'' @ [newline] @
     ''            ex:hasMeasurement ?measurement ;'' @ [newline] @
     ''            mh:hasAge ?age .'' @ [newline] @
     ''      ?mh mh:hasSeverity ?severityUri .'' @ [newline] @
     ''      ?severityUri skos:prefLabel "Medium" .'' @ [newline] @
     ''      ?countryUri skos:prefLabel "Australia" .'' @ [newline] @
     ''      ?measurement mh:hasWorkHours ?workHours .'' @ [newline] @
     ''      FILTER (datatype(?age) = xsd:integer && datatype(?workHours) = xsd:integer)'' @ [newline] @
     ''    }'' @ [newline] @
     ''    ORDER BY ?age ?user'' @ [newline] @
     ''    ''\<close>

text \<open>The dictionary \<open>queries\<close>, in insertion order.\<close>

definition queries :: "(string \<times> string) list" where
  "queries =
     [(''roll_up_sleep_by_country'', roll_up_sleep_by_country),
      (''drill_down_work_by_country_gender'', drill_down_work_by_country_gender),
      (''slice_high_stress'', slice_high_stress),
      (''dice_medium_severity_australia'', dice_medium_severity_australia)]"

definition sizes :: "int list" where
  "sizes = [10000, 25000, 50000]"

subsection \<open>Timing a query\<close>

text \<open>
  The query engine is rdflib's, outside the repository: it enters as a parameter. It is
  given the store and the graph object, and returns the result rows or the exception it
  raises, with the store it leaves. The wall clock is a parameter too: \<open>now k\<close> is what
  the \<open>k\<close>-th call of \<open>time.time()\<close> returns.
\<close>

type_synonym 'r engine = "world \<Rightarrow> nat \<Rightarrow> string \<Rightarrow> (error + 'r list) \<times> world"

record benchmark =
  query_name :: string
  execution_time :: real
  row_count :: nat

definition time_time :: "(nat \<Rightarrow> real) \<Rightarrow> world \<Rightarrow> real \<times> world" where
  "time_time now w = (now (ticks w), w\<lparr>ticks := Suc (ticks w)\<rparr>)"

definition measure_query_time ::
  "(nat \<Rightarrow> real) \<Rightarrow> 'r engine \<Rightarrow> world \<Rightarrow> nat \<Rightarrow> string \<Rightarrow> string \<Rightarrow> (error + benchmark) \<times> world" where
  "measure_query_time now query w graph name q =
     (case time_time now w of
        (start_time, w1) \<Rightarrow>
          (case query w1 graph q of
             (Inl e, w2) \<Rightarrow> (Inl e, w2)
           | (Inr result, w2) \<Rightarrow>
               (case time_time now w2 of
                  (end_time, w3) \<Rightarrow>
                    (Inr \<lparr>query_name = name,
                          execution_time = end_time - start_time,
                          row_count = length result\<rparr>, w3))))"

text \<open>
  \<open>for name, q in queries.items(): benchmarks.append(measure_query_time(g, name, q))\<close>:
  an exception of one query leaves the loop and the script.
\<close>

fun run_queries ::
  "(nat \<Rightarrow> real) \<Rightarrow> 'r engine \<Rightarrow> world \<Rightarrow> nat \<Rightarrow> (string \<times> string) list \<Rightarrow>
     (error + benchmark list) \<times> world" where
  "run_queries now query w graph [] = (Inr [], w)"
| "run_queries now query w graph ((name, q) # rest) =
     (case measure_query_time now query w graph name q of
        (Inl e, w1) \<Rightarrow> (Inl e, w1)
      | (Inr b, w1) \<Rightarrow>
          (case run_queries now query w1 graph rest of
             (Inl e, w2) \<Rightarrow> (Inl e, w2)
           | (Inr bs, w2) \<Rightarrow> (Inr (b # bs), w2)))"

text \<open>\<open>d[k] = v\<close> on a dictionary kept in insertion order.\<close>

fun dict_set :: "('k \<times> 'v) list \<Rightarrow> 'k \<Rightarrow> 'v \<Rightarrow> ('k \<times> 'v) list" where
  "dict_set [] k v = [(k, v)]"
| "dict_set ((k', v') # d) k v = (if k' = k then (k, v) # d else (k', v') # dict_set d k v)"

text \<open>The loop over the subsample sizes.\<close>

fun scalability ::
  "(nat \<Rightarrow> real) \<Rightarrow> 'r engine \<Rightarrow> world \<Rightarrow> nat \<Rightarrow> (string \<times> string) list \<Rightarrow> int list \<Rightarrow>
     (int \<times> benchmark list) list \<Rightarrow> (error + (int \<times> benchmark list) list) \<times> world" where
  "scalability now query w g qs [] scalability_results = (Inr scalability_results, w)"
| "scalability now query w g qs (sz # rest) scalability_results =
     (case create_subsampled_graph w g sz of
        (Inl e, w1) \<Rightarrow> (Inl e, w1)
      | (Inr sub_g, w1) \<Rightarrow>
          (case run_queries now query w1 sub_g qs of
             (Inl e, w2) \<Rightarrow> (Inl e, w2)
           | (Inr benchmarks, w2) \<Rightarrow>
               scalability now query w2 g qs rest (dict_set scalability_results sz benchmarks)))"

text \<open>The script after the graph \<open>g\<close> is loaded: the full run, then the subsamples.\<close>

definition run_benchmarks ::
  "(nat \<Rightarrow> real) \<Rightarrow> 'r engine \<Rightarrow> world \<Rightarrow> nat \<Rightarrow> (string \<times> string) list \<Rightarrow> int list \<Rightarrow>
     (error + benchmark list \<times> (int \<times> benchmark list) list) \<times> world" where
  "run_benchmarks now query w g qs szs =
     (case run_queries now query w g qs of
        (Inl e, w1) \<Rightarrow> (Inl e, w1)
      | (Inr benchmarks_full, w1) \<Rightarrow>
          (case scalability now query w1 g qs szs [] of
             (Inl e, w2) \<Rightarrow> (Inl e, w2)
           | (Inr scalability_results, w2) \<Rightarrow>
               (Inr (benchmarks_full, scalability_results), w2)))"

section \<open>Vocabulary of the properties\<close>

subsection \<open>One pass of the loop body, in closed form\<close>

text \<open>
  What one dimension block does: \<open>intern\<close> is the table after the block, \<open>ident\<close> the
  identifier the link triple uses, \<open>new_entity\<close> (\<open>new_country\<close> for the country block)
  the triples a first occurrence adds, \<open>dim_graph\<close> and \<open>country_graph\<close> the graph after
  the block. \<open>row_triples\<close> collects every triple one pass of the loop body adds.
\<close>

definition intern :: "dim_map \<Rightarrow> string \<Rightarrow> dim_map" where
  "intern m v = (case map_of m v of None \<Rightarrow> m @ [(v, length m + 1)] | Some _ \<Rightarrow> m)"

definition ident :: "dim_map \<Rightarrow> string \<Rightarrow> nat" where
  "ident m v = (case map_of m v of None \<Rightarrow> length m + 1 | Some i \<Rightarrow> i)"

definition new_entity :: "string \<Rightarrow> node \<Rightarrow> dim_map \<Rightarrow> string \<Rightarrow> triple set" where
  "new_entity prefix cls m v =
     (case map_of m v of
        None \<Rightarrow> {(MH (prefix @ str_nat (length m + 1)), RDF_type, cls),
                 (MH (prefix @ str_nat (length m + 1)), SKOS_prefLabel, Literal v None None)}
      | Some _ \<Rightarrow> {})"

definition new_country :: "dim_map \<Rightarrow> string \<Rightarrow> triple set" where
  "new_country m v =
     (case map_of m v of
        None \<Rightarrow> {(MH (''country/'' @ str_nat (length m + 1)), RDF_type, MH ''Country''),
                 (MH (''country/'' @ str_nat (length m + 1)), SKOS_prefLabel, Literal v None None)}
               \<union> (case map_of country_wd_map v of
                    Some (Some wd) \<Rightarrow> {(MH (''country/'' @ str_nat (length m + 1)), OWL_sameAs, wd)}
                  | _ \<Rightarrow> {})
      | Some _ \<Rightarrow> {})"

definition dim_graph :: "string \<Rightarrow> node \<Rightarrow> dim_map \<Rightarrow> string \<Rightarrow> graph \<Rightarrow> graph" where
  "dim_graph p c m v g = fst (snd (dim_block p c m v g))"

definition country_graph :: "dim_map \<Rightarrow> string \<Rightarrow> graph \<Rightarrow> graph" where
  "country_graph m v g = fst (snd (country_block m v g))"

definition row_triples :: "'c literal_constructor \<Rightarrow> gen_state \<Rightarrow> 'c row \<Rightarrow> triple set" where
  "row_triples literal st r =
    (let user_uri = MH (''user/'' @ User_ID r);
         mh_uri = MH (''mental_health/'' @ str_nat (mental_health_counter st));
         ls_uri = MH (''lifestyle/'' @ str_nat (lifestyle_counter st));
         meas_uri = MH (''measurement/'' @ User_ID r)
     in {(user_uri, RDF_type, MH ''Person''),
         (user_uri, MH ''hasAge'', literal (Age r) (Some XSD_integer)),
         (user_uri, MH ''hasGender'', MH (''gender/'' @ str_nat (ident (gender_map st) (Gender r)))),
         (user_uri, MH ''hasOccupation'',
            MH (''occupation/'' @ str_nat (ident (occupation_map st) (Occupation r)))),
         (user_uri, MH ''hasCountry'', MH (''country/'' @ str_nat (ident (country_map st) (Country r)))),
         (mh_uri, RDF_type, MH ''MentalHealth''),
         (mh_uri, RDFS_label, literal (Mental_Health_Condition r) None),
         (user_uri, MH ''hasMentalHealth'', mh_uri),
         (mh_uri, MH ''hasSeverity'', MH (''severity/'' @ str_nat (ident (severity_map st) (Severity r)))),
         (mh_uri, MH ''hasConsultationHistory'',
            MH (''consultation/'' @ str_nat (ident (consultation_map st) (Consultation_History r)))),
         (mh_uri, MH ''hasStressLevel'', MH (''stress/'' @ str_nat (ident (stress_map st) (Stress_Level r)))),
         (mh_uri, MH ''hasMedicationUsage'',
            MH (''medication/'' @ str_nat (ident (medication_map st) (Medication_Usage r)))),
         (ls_uri, RDF_type, MH ''Lifestyle''),
         (user_uri, MH ''hasLifestyle'', ls_uri),
         (ls_uri, MH ''hasDietQuality'', MH (''diet/'' @ str_nat (ident (diet_map st) (Diet_Quality r)))),
         (ls_uri, MH ''hasSmokingHabit'', MH (''smoking/'' @ str_nat (ident (smoking_map st) (Smoking_Habit r)))),
         (ls_uri, MH ''hasAlcoholConsumption'',
            MH (''alcohol/'' @ str_nat (ident (alcohol_map st) (Alcohol_Consumption r)))),
         (meas_uri, RDF_type, MH ''Measurement''),
         (meas_uri, MH ''hasSleepHours'', literal (Sleep_Hours r) (Some XSD_float)),
         (meas_uri, MH ''hasWorkHours'', literal (Work_Hours r) (Some XSD_integer)),
         (meas_uri, MH ''hasPhysicalActivityHours'',
            literal (Physical_Activity_Hours r) (Some XSD_integer)),
         (meas_uri, MH ''hasSocialMediaUsage'', literal (Social_Media_Usage r) (Some XSD_float)),
         (user_uri, ex ''hasMeasurement'', meas_uri)}
        \<union> new_entity ''gender/'' (MH ''Gender'') (gender_map st) (Gender r)
        \<union> new_entity ''occupation/'' (MH ''Occupation'') (occupation_map st) (Occupation r)
        \<union> new_country (country_map st) (Country r)
        \<union> new_entity ''severity/'' (MH ''Severity'') (severity_map st) (Severity r)
        \<union> new_entity ''consultation/'' (MH ''Consultation'') (consultation_map st) (Consultation_History r)
        \<union> new_entity ''stress/'' (MH ''StressLevel'') (stress_map st) (Stress_Level r)
        \<union> new_entity ''medication/'' (MH ''Medication'') (medication_map st) (Medication_Usage r)
        \<union> new_entity ''diet/'' (MH ''DietQuality'') (diet_map st) (Diet_Quality r)
        \<union> new_entity ''smoking/'' (MH ''SmokingHabit'') (smoking_map st) (Smoking_Habit r)
        \<union> new_entity ''alcohol/'' (MH ''AlcoholConsumption'') (alcohol_map st) (Alcohol_Consumption r))"

text \<open>The number a string of decimal digits denotes.\<close>

definition digits_value :: "string \<Rightarrow> nat" where
  "digits_value cs = foldl (\<lambda>a c. 10 * a + (of_char c - 48)) 0 cs"

subsection \<open>The ten dimensions\<close>

text \<open>
  The loop body repeats one block for ten tables. The functions below name, for each
  dimension, its table in the generator's state, its column of the row, the prefix of
  its URIs, its class, and the predicate and subject of the link triple the loop adds
  after the block (the subject is the row's Person, or the MentalHealth or Lifestyle
  entity whose counter value is \<open>n\<close>).
\<close>

datatype dimension =
    D_gender | D_occupation | D_country | D_severity | D_consultation
  | D_stress | D_medication | D_diet | D_smoking | D_alcohol

fun table :: "dimension \<Rightarrow> gen_state \<Rightarrow> dim_map" where
  "table D_gender st = gender_map st"
| "table D_occupation st = occupation_map st"
| "table D_country st = country_map st"
| "table D_severity st = severity_map st"
| "table D_consultation st = consultation_map st"
| "table D_stress st = stress_map st"
| "table D_medication st = medication_map st"
| "table D_diet st = diet_map st"
| "table D_smoking st = smoking_map st"
| "table D_alcohol st = alcohol_map st"

fun column :: "dimension \<Rightarrow> 'c row \<Rightarrow> string" where
  "column D_gender r = Gender r"
| "column D_occupation r = Occupation r"
| "column D_country r = Country r"
| "column D_severity r = Severity r"
| "column D_consultation r = Consultation_History r"
| "column D_stress r = Stress_Level r"
| "column D_medication r = Medication_Usage r"
| "column D_diet r = Diet_Quality r"
| "column D_smoking r = Smoking_Habit r"
| "column D_alcohol r = Alcohol_Consumption r"

fun uri_prefix :: "dimension \<Rightarrow> string" where
  "uri_prefix D_gender = ''gender/''"
| "uri_prefix D_occupation = ''occupation/''"
| "uri_prefix D_country = ''country/''"
| "uri_prefix D_severity = ''severity/''"
| "uri_prefix D_consultation = ''consultation/''"
| "uri_prefix D_stress = ''stress/''"
| "uri_prefix D_medication = ''medication/''"
| "uri_prefix D_diet = ''diet/''"
| "uri_prefix D_smoking = ''smoking/''"
| "uri_prefix D_alcohol = ''alcohol/''"

fun dimension_class :: "dimension \<Rightarrow> node" where
  "dimension_class D_gender = MH ''Gender''"
| "dimension_class D_occupation = MH ''Occupation''"
| "dimension_class D_country = MH ''Country''"
| "dimension_class D_severity = MH ''Severity''"
| "dimension_class D_consultation = MH ''Consultation''"
| "dimension_class D_stress = MH ''StressLevel''"
| "dimension_class D_medication = MH ''Medication''"
| "dimension_class D_diet = MH ''DietQuality''"
| "dimension_class D_smoking = MH ''SmokingHabit''"
| "dimension_class D_alcohol = MH ''AlcoholConsumption''"

fun link_predicate :: "dimension \<Rightarrow> node" where
  "link_predicate D_gender = MH ''hasGender''"
| "link_predicate D_occupation = MH ''hasOccupation''"
| "link_predicate D_country = MH ''hasCountry''"
| "link_predicate D_severity = MH ''hasSeverity''"
| "link_predicate D_consultation = MH ''hasConsultationHistory''"
| "link_predicate D_stress = MH ''hasStressLevel''"
| "link_predicate D_medication = MH ''hasMedicationUsage''"
| "link_predicate D_diet = MH ''hasDietQuality''"
| "link_predicate D_smoking = MH ''hasSmokingHabit''"
| "link_predicate D_alcohol = MH ''hasAlcoholConsumption''"

fun link_subject :: "dimension \<Rightarrow> nat \<Rightarrow> 'c row \<Rightarrow> node" where
  "link_subject D_gender n r = MH (''user/'' @ User_ID r)"
| "link_subject D_occupation n r = MH (''user/'' @ User_ID r)"
| "link_subject D_country n r = MH (''user/'' @ User_ID r)"
| "link_subject D_severity n r = MH (''mental_health/'' @ str_nat n)"
| "link_subject D_consultation n r = MH (''mental_health/'' @ str_nat n)"
| "link_subject D_stress n r = MH (''mental_health/'' @ str_nat n)"
| "link_subject D_medication n r = MH (''mental_health/'' @ str_nat n)"
| "link_subject D_diet n r = MH (''lifestyle/'' @ str_nat n)"
| "link_subject D_smoking n r = MH (''lifestyle/'' @ str_nat n)"
| "link_subject D_alcohol n r = MH (''lifestyle/'' @ str_nat n)"

text \<open>The distinct values of a column, in order of first occurrence.\<close>

fun first_seen :: "string list \<Rightarrow> string list" where
  "first_seen [] = []"
| "first_seen (v # vs) = v # removeAll v (first_seen vs)"

subsection \<open>Dimensions of the fact entities\<close>

text \<open>The dimensions a MentalHealth entity and a Lifestyle entity link to.\<close>

definition mental_health_dimensions :: "dimension set" where
  "mental_health_dimensions = {D_severity, D_consultation, D_stress, D_medication}"

definition lifestyle_dimensions :: "dimension set" where
  "lifestyle_dimensions = {D_diet, D_smoking, D_alcohol}"

subsection \<open>Example rows\<close>

text \<open>
  The cells of the examples: a text cell, an int or float cell (by the text Python prints
  it with), a missing cell (pandas' NaN).
\<close>

datatype cell = Text string | Number string | Missing

fun cell_text :: "cell \<Rightarrow> string" where
  "cell_text (Text s) = s"
| "cell_text (Number s) = s"
| "cell_text Missing = ''nan''"

text \<open>
  The literal constructor of the examples: the lexical form is the cell's text as it
  stands. On the cells of the example rows this is what rdflib builds: a text cell
  without a datatype is a plain literal, an int or float cell is written as Python prints
  it, and text that does not parse in the datatype is kept unchanged.
\<close>

definition keep_text :: "cell literal_constructor" where
  "keep_text c dt = Literal (cell_text c) None dt"

text \<open>A row whose age is not a number and whose sleep-hours cell is missing.\<close>

definition malformed_row :: "cell row" where
  "malformed_row =
     \<lparr> User_ID = ''1'', Age = Text ''abc'', Gender = ''Female'', Occupation = ''IT'',
       Country = ''USA'', Mental_Health_Condition = Text ''Yes'', Severity = ''High'',
       Consultation_History = ''No'', Stress_Level = ''High'', Medication_Usage = ''No'',
       Diet_Quality = ''Average'', Smoking_Habit = ''Non-Smoker'',
       Alcohol_Consumption = ''Social Drinker'', Sleep_Hours = Missing,
       Work_Hours = Number ''40'', Physical_Activity_Hours = Number ''3'',
       Social_Media_Usage = Number ''2.5'' \<rparr>"

text \<open>Three rows with the countries USA, India, USA; rows 1 and 3 agree on every dimension.\<close>

definition scenario_rows :: "cell row list" where
  "scenario_rows =
     [\<lparr> User_ID = ''1'', Age = Number ''25'', Gender = ''Female'', Occupation = ''IT'',
        Country = ''USA'', Mental_Health_Condition = Text ''Yes'', Severity = ''High'',
        Consultation_History = ''No'', Stress_Level = ''High'', Medication_Usage = ''No'',
        Diet_Quality = ''Average'', Smoking_Habit = ''Non-Smoker'',
        Alcohol_Consumption = ''Social Drinker'', Sleep_Hours = Number ''7.0'',
        Work_Hours = Number ''40'', Physical_Activity_Hours = Number ''3'',
        Social_Media_Usage = Number ''2.5'' \<rparr>,
      \<lparr> User_ID = ''2'', Age = Number ''41'', Gender = ''Male'', Occupation = ''Sales'',
        Country = ''India'', Mental_Health_Condition = Text ''No'', Severity = ''Low'',
        Consultation_History = ''Yes'', Stress_Level = ''Medium'', Medication_Usage = ''Yes'',
        Diet_Quality = ''Healthy'', Smoking_Habit = ''Regular Smoker'',
        Alcohol_Consumption = ''Non-Drinker'', Sleep_Hours = Number ''8.0'',
        Work_Hours = Number ''35'', Physical_Activity_Hours = Number ''5'',
        Social_Media_Usage = Number ''1.0'' \<rparr>,
      \<lparr> User_ID = ''3'', Age = Number ''25'', Gender = ''Female'', Occupation = ''IT'',
        Country = ''USA'', Mental_Health_Condition = Text ''Yes'', Severity = ''High'',
        Consultation_History = ''No'', Stress_Level = ''High'', Medication_Usage = ''No'',
        Diet_Quality = ''Average'', Smoking_Habit = ''Non-Smoker'',
        Alcohol_Consumption = ''Social Drinker'', Sleep_Hours = Number ''6.0'',
        Work_Hours = Number ''40'', Physical_Activity_Hours = Number ''3'',
        Social_Media_Usage = Number ''2.5'' \<rparr>]"

subsection \<open>What the subsampler tests\<close>

text \<open>
  The tests of the loop, on a triple: the subject's text contains \<open>user/\<close>; the integer
  \<open>int\<close> reads after the subject's last \<open>/\<close>; the subject's text contains one of the
  ten dimension markers. A triple is kept when the first branch or the \<open>elif\<close> branch
  takes it.
\<close>

definition person_rooted :: "triple \<Rightarrow> bool" where
  "person_rooted t = contains ''user/'' (py_str (fst t))"

definition row_identifier :: "triple \<Rightarrow> int option" where
  "row_identifier t = py_int (last (py_split CHR ''/'' (py_str (fst t))))"

definition dimension_rooted :: "triple \<Rightarrow> bool" where
  "dimension_rooted t = dimension_subject (py_str (fst t))"

definition kept :: "int \<Rightarrow> triple \<Rightarrow> bool" where
  "kept T t = ((person_rooted t \<and> (\<exists>i. row_identifier t = Some i \<and> i \<le> T)) \<or> dimension_rooted t)"

text \<open>
  A step preserves the graphs of a store when every graph object that existed before
  still exists and holds the same triples.
\<close>

definition preserves_graphs :: "world \<Rightarrow> world \<Rightarrow> bool" where
  "preserves_graphs w w' =
     (allocated w \<le> allocated w' \<and> (\<forall>a<allocated w. graphs w' a = graphs w a))"

text \<open>Every subject that contains \<open>user/\<close> ends in text that \<open>int\<close> accepts.\<close>

definition well_formed_subjects :: "graph \<Rightarrow> bool" where
  "well_formed_subjects g = (\<forall>t\<in>set g. person_rooted t \<longrightarrow> row_identifier t \<noteq> None)"

text \<open>An engine whose queries leave every existing graph as it was.\<close>

definition read_only :: "'r engine \<Rightarrow> bool" where
  "read_only query = (\<forall>w g q. preserves_graphs w (snd (query w g q)))"

subsection \<open>Example stores and engines\<close>

text \<open>
  The store after loading: one graph object, number 0. Two small graphs: one with integer
  user identifiers, one whose user identifier is the text \<open>U1\<close>.
\<close>

definition loaded_world :: "graph \<Rightarrow> world" where
  "loaded_world g = \<lparr> graphs = (\<lambda>_. [])(0 := g), allocated = 1, ticks = 0 \<rparr>"

definition small_graph :: graph where
  "small_graph =
     [(MH ''user/1'', RDF_type, MH ''Person''),
      (MH ''user/20000'', RDF_type, MH ''Person''),
      (MH ''gender/1'', RDF_type, MH ''Gender''),
      (MH ''measurement/1'', RDF_type, MH ''Measurement'')]"

definition text_id_graph :: graph where
  "text_id_graph = [(MH ''user/U1'', RDF_type, MH ''Person'')]"

text \<open>An engine on which the third query of the catalog raises and the others find no rows.\<close>

definition failing_engine :: "unit engine" where
  "failing_engine w g q =
     (if q = slice_high_stress then (Inl (QueryError ''type mismatch''), w) else (Inr [], w))"

section \<open>Properties of the generator\<close>

subsection \<open>The effect of one row\<close>

lemma set_add: "set (add g t) = insert t (set g)"
  by (auto simp: add_def)

lemma dim_block_eq: "dim_block p c m v g = (intern m v, dim_graph p c m v g, ident m v)"
  by (simp add: dim_block_def dim_graph_def intern_def ident_def Let_def split: option.splits)

lemma country_block_eq: "country_block m v g = (intern m v, country_graph m v g, ident m v)"
  by (simp add: country_block_def country_graph_def intern_def ident_def Let_def
      split: option.splits)

lemma set_dim_graph: "set (dim_graph p c m v g) = set g \<union> new_entity p c m v"
  by (cases "map_of m v")
     (simp_all add: dim_graph_def dim_block_def new_entity_def Let_def set_add insert_commute)

lemma set_country_graph: "set (country_graph m v g) = set g \<union> new_country m v"
  by (cases "map_of m v")
     (auto simp: country_graph_def country_block_def new_country_def Let_def set_add
        split: option.splits)

lemma process_row_maps:
  "gender_map (process_row lit st r) = intern (gender_map st) (Gender r)"
  "occupation_map (process_row lit st r) = intern (occupation_map st) (Occupation r)"
  "country_map (process_row lit st r) = intern (country_map st) (Country r)"
  "severity_map (process_row lit st r) = intern (severity_map st) (Severity r)"
  "consultation_map (process_row lit st r) = intern (consultation_map st) (Consultation_History r)"
  "stress_map (process_row lit st r) = intern (stress_map st) (Stress_Level r)"
  "medication_map (process_row lit st r) = intern (medication_map st) (Medication_Usage r)"
  "diet_map (process_row lit st r) = intern (diet_map st) (Diet_Quality r)"
  "smoking_map (process_row lit st r) = intern (smoking_map st) (Smoking_Habit r)"
  "alcohol_map (process_row lit st r) = intern (alcohol_map st) (Alcohol_Consumption r)"
  "mental_health_counter (process_row lit st r) = mental_health_counter st + 1"
  "lifestyle_counter (process_row lit st r) = lifestyle_counter st + 1"
  unfolding process_row_def Let_def dim_block_eq country_block_eq prod.case
  by simp_all

lemma process_row_abox: "set (abox (process_row lit st r)) = set (abox st) \<union> row_triples lit st r"
  unfolding process_row_def row_triples_def Let_def dim_block_eq country_block_eq prod.case
  apply (simp only: gen_state.simps set_add set_dim_graph set_country_graph)
  apply (rule set_eqI)
  apply (simp only: Un_iff insert_iff empty_iff disj_ac simp_thms)
  done

lemma map_of_intern:
  "map_of (intern m v) k =
     (if k = v \<and> map_of m v = None then Some (length m + 1) else map_of m k)"
  by (cases "map_of m v") (auto simp: intern_def map_add_def split: option.splits)

lemma map_of_intern_self: "map_of (intern m v) v = Some (ident m v)"
  by (simp add: map_of_intern ident_def split: option.splits)

lemma map_of_intern_stable: "map_of m k = Some i \<Longrightarrow> map_of (intern m v) k = Some i"
  by (auto simp: map_of_intern)

lemma map_of_foldl_intern_stable:
  "map_of m k = Some i \<Longrightarrow> map_of (foldl intern m vs) k = Some i"
  by (induction vs arbitrary: m) (simp_all add: map_of_intern_stable)

lemma of_char_digit_char: "d < 10 \<Longrightarrow> of_char (digit_char d) = (48 + d :: nat)"
  by (simp add: digit_char_def)

lemma digits_value_str_nat: "digits_value (str_nat n) = n"
proof (induction n rule: str_nat.induct)
  case (1 n)
  show ?case
  proof (cases "n < 10")
    case True
    then show ?thesis
      by (subst str_nat.simps) (simp add: digits_value_def of_char_digit_char)
  next
    case False
    with 1 have "digits_value (str_nat (n div 10)) = n div 10" by simp
    with False show ?thesis
      by (subst str_nat.simps) (simp add: digits_value_def of_char_digit_char)
  qed
qed

lemma str_nat_inject: "str_nat m = str_nat n \<longleftrightarrow> m = n"
  by (metis digits_value_str_nat)

lemma MH_inject: "MH a = MH b \<longleftrightarrow> a = b"
  by (simp add: MH_def)

lemma foldl_process_row_abox:
  "set (abox (foldl (process_row lit) st rows)) =
     set (abox st) \<union> (\<Union>i<length rows. row_triples lit (foldl (process_row lit) st (take i rows)) (rows ! i))"
proof (induction rows rule: rev_induct)
  case Nil
  then show ?case by simp
next
  case (snoc r rows)
  have "(\<Union>i<length rows. row_triples lit (foldl (process_row lit) st (take i (rows @ [r]))) ((rows @ [r]) ! i))
      = (\<Union>i<length rows. row_triples lit (foldl (process_row lit) st (take i rows)) (rows ! i))"
    by (intro SUP_cong) (simp_all add: nth_append)
  with snoc show ?case
    by (simp add: process_row_abox lessThan_Suc Un_ac)
qed

lemma measured_in_row_triples:
  "(MH (''user/'' @ User_ID r), MH ''hasAge'', lit (Age r) (Some XSD_integer))
     \<in> row_triples lit st r"
  "(MH (''measurement/'' @ User_ID r), MH ''hasSleepHours'',
      lit (Sleep_Hours r) (Some XSD_float)) \<in> row_triples lit st r"
  "(MH (''measurement/'' @ User_ID r), MH ''hasWorkHours'',
      lit (Work_Hours r) (Some XSD_integer)) \<in> row_triples lit st r"
  "(MH (''measurement/'' @ User_ID r), MH ''hasPhysicalActivityHours'',
      lit (Physical_Activity_Hours r) (Some XSD_integer)) \<in> row_triples lit st r"
  "(MH (''measurement/'' @ User_ID r), MH ''hasSocialMediaUsage'',
      lit (Social_Media_Usage r) (Some XSD_float)) \<in> row_triples lit st r"
  unfolding row_triples_def Let_def by (simp_all only: Un_iff insert_iff simp_thms)

lemma generate_abox:
  "set (abox (generate lit rows)) =
     (\<Union>i<length rows. row_triples lit (generate lit (take i rows)) (rows ! i))"
  by (simp add: generate_def foldl_process_row_abox initial_state_def)

lemma row_triples_in_abox:
  "i < length rows \<Longrightarrow> row_triples lit (generate lit (take i rows)) (rows ! i) \<subseteq> set (abox (generate lit rows))"
  by (auto simp: generate_abox)

subsection \<open>Numeric fields\<close>

text \<open>
  C6 (as amended). The generator has no validation and no failure branch of its own: for
  every row of every input and whatever its age, sleep-hours, work-hours,
  physical-activity and social-media cells are, each of the five cells is handed as it is
  to the literal constructor with the declared datatype, and the triple with the literal
  the constructor returns is in the instance graph of the completed run.
\<close>

theorem numeric_fields_not_validated:
  assumes "r \<in> set rows"
  shows "(MH (''user/'' @ User_ID r), MH ''hasAge'', lit (Age r) (Some XSD_integer))
           \<in> set (abox (generate lit rows))
       \<and> (MH (''measurement/'' @ User_ID r), MH ''hasSleepHours'',
            lit (Sleep_Hours r) (Some XSD_float)) \<in> set (abox (generate lit rows))
       \<and> (MH (''measurement/'' @ User_ID r), MH ''hasWorkHours'',
            lit (Work_Hours r) (Some XSD_integer)) \<in> set (abox (generate lit rows))
       \<and> (MH (''measurement/'' @ User_ID r), MH ''hasPhysicalActivityHours'',
            lit (Physical_Activity_Hours r) (Some XSD_integer))
           \<in> set (abox (generate lit rows))
       \<and> (MH (''measurement/'' @ User_ID r), MH ''hasSocialMediaUsage'',
            lit (Social_Media_Usage r) (Some XSD_float)) \<in> set (abox (generate lit rows))"
proof -
  from assms obtain i where i: "i < length rows" and r: "rows ! i = r"
    by (auto simp: in_set_conv_nth)
  have sub: "row_triples lit (generate lit (take i rows)) r \<subseteq> set (abox (generate lit rows))"
    using row_triples_in_abox [OF i] r by simp
  show ?thesis
    using sub measured_in_row_triples [where r = r and lit = lit
        and st = "generate lit (take i rows)"] by blast
qed

text \<open>The amended C6 at a row whose age is the text \<open>abc\<close> and whose sleep hours are missing.\<close>

theorem numeric_fields_not_validated_witness:
  "malformed_row \<in> set [malformed_row]
   \<and> (MH ''user/1'', MH ''hasAge'', keep_text (Text ''abc'') (Some XSD_integer))
        \<in> set (abox (generate keep_text [malformed_row]))
   \<and> (MH ''measurement/1'', MH ''hasSleepHours'', keep_text Missing (Some XSD_float))
        \<in> set (abox (generate keep_text [malformed_row]))"
  using numeric_fields_not_validated [where r = malformed_row and rows = "[malformed_row]"
      and lit = keep_text]
  by (simp add: malformed_row_def)

text \<open>
  C6 as stated fails: a row with a malformed age and a missing sleep-hours cell does not
  stop the run; both cells reach the instance graph as literals.
\<close>

theorem malformed_age_is_emitted:
  "Age malformed_row = Text ''abc'' \<and> Sleep_Hours malformed_row = Missing
   \<and> (MH ''user/1'', MH ''hasAge'', Literal ''abc'' None (Some XSD_integer))
        \<in> set (abox (generate keep_text [malformed_row]))
   \<and> (MH ''measurement/1'', MH ''hasSleepHours'', Literal ''nan'' None (Some XSD_float))
        \<in> set (abox (generate keep_text [malformed_row]))"
proof -
  have g: "set (abox (generate keep_text [malformed_row]))
      = row_triples keep_text initial_state malformed_row"
    using generate_abox [where rows = "[malformed_row]" and lit = keep_text]
    by (simp add: generate_def lessThan_Suc)
  have a: "(MH ''user/1'', MH ''hasAge'', Literal ''abc'' None (Some XSD_integer))
        \<in> row_triples keep_text initial_state malformed_row"
    using measured_in_row_triples(1) [where r = malformed_row and st = initial_state
        and lit = keep_text]
    by (simp add: malformed_row_def keep_text_def)
  have b: "(MH ''measurement/1'', MH ''hasSleepHours'', Literal ''nan'' None (Some XSD_float))
        \<in> row_triples keep_text initial_state malformed_row"
    using measured_in_row_triples(2) [where r = malformed_row and st = initial_state
        and lit = keep_text]
    by (simp add: malformed_row_def keep_text_def)
  show ?thesis using g a b by (simp add: malformed_row_def)
qed

subsection \<open>Tables and first occurrences\<close>

lemma table_process_row: "table d (process_row lit st r) = intern (table d st) (column d r)"
  by (cases d) (simp_all add: process_row_maps)

lemma table_foldl:
  "table d (foldl (process_row lit) st rows) = foldl intern (table d st) (map (column d) rows)"
  by (induction rows arbitrary: st) (simp_all add: table_process_row)

lemma counters_foldl:
  "mental_health_counter (foldl (process_row lit) st rows) = mental_health_counter st + length rows"
  "lifestyle_counter (foldl (process_row lit) st rows) = lifestyle_counter st + length rows"
  by (induction rows arbitrary: st) (simp_all add: process_row_maps)

lemma table_generate: "table d (generate lit rows) = foldl intern [] (map (column d) rows)"
  by (cases d) (simp_all add: generate_def table_foldl initial_state_def)

lemma counters_generate:
  "mental_health_counter (generate lit rows) = Suc (length rows)"
  "lifestyle_counter (generate lit rows) = Suc (length rows)"
  by (simp_all add: generate_def counters_foldl initial_state_def)

lemma set_first_seen: "set (first_seen vs) = set vs"
  by (induction vs) auto

lemma distinct_first_seen: "distinct (first_seen vs)"
  by (induction vs) (auto simp: distinct_removeAll)

lemma length_first_seen: "length (first_seen vs) = card (set vs)"
  by (metis distinct_card distinct_first_seen set_first_seen)

lemma first_seen_snoc:
  "first_seen (vs @ [v]) = (if v \<in> set vs then first_seen vs else first_seen vs @ [v])"
  by (induction vs) (auto simp: set_first_seen)

lemma foldl_intern_first_seen_aux:
  "foldl intern [] vs = zip (first_seen vs) (map Suc [0..<length (first_seen vs)])"
proof (induction vs rule: rev_induct)
  case Nil
  then show ?case by simp
next
  case (snoc v vs)
  let ?fs = "first_seen vs"
  let ?m = "zip ?fs (map Suc [0..<length ?fs])"
  have len: "length ?m = length ?fs" by simp
  have none: "map_of ?m v = None \<longleftrightarrow> v \<notin> set vs"
    using map_of_zip_is_None [of ?fs "map Suc [0..<length ?fs]" v]
    by (simp add: set_first_seen)
  have step: "foldl intern [] (vs @ [v]) = intern ?m v"
    using snoc by simp
  show ?case
  proof (cases "v \<in> set vs")
    case True
    with none have "map_of ?m v \<noteq> None" by blast
    then obtain i where i: "map_of ?m v = Some i" by (meson option.exhaust)
    have "intern ?m v = ?m" unfolding intern_def i by simp
    with True step show ?thesis by (simp add: first_seen_snoc)
  next
    case False
    with none have mn: "map_of ?m v = None" by blast
    have "intern ?m v = ?m @ [(v, Suc (length ?fs))]" unfolding intern_def mn by simp
    with False step show ?thesis by (simp add: first_seen_snoc)
  qed
qed

lemma foldl_intern_first_seen:
  "foldl intern [] vs = zip (first_seen vs) [1..<Suc (card (set vs))]"
  using foldl_intern_first_seen_aux [of vs]
  by (simp only: map_Suc_upt length_first_seen One_nat_def)

lemma link_in_row_triples:
  assumes "mental_health_counter st = n" and "lifestyle_counter st = n"
  shows "(link_subject d n r, link_predicate d,
            MH (uri_prefix d @ str_nat (ident (table d st) (column d r)))) \<in> row_triples lit st r"
  using assms unfolding row_triples_def Let_def
  by (cases d) (simp_all only: Un_iff insert_iff simp_thms table.simps column.simps
      uri_prefix.simps link_predicate.simps link_subject.simps)

lemma generate_split:
  assumes "n < length rows"
  shows "generate lit rows =
           foldl (process_row lit) (process_row lit (generate lit (take n rows)) (rows ! n)) (drop (Suc n) rows)"
proof -
  have "rows = take n rows @ rows ! n # drop (Suc n) rows"
    using assms by (rule id_take_nth_drop)
  then have "foldl (process_row lit) initial_state rows =
      foldl (process_row lit) initial_state (take n rows @ rows ! n # drop (Suc n) rows)"
    by simp
  then show ?thesis by (simp add: generate_def)
qed

lemma final_identifier:
  assumes "n < length rows"
  shows "map_of (table d (generate lit rows)) (column d (rows ! n)) =
           Some (ident (table d (generate lit (take n rows))) (column d (rows ! n)))"
proof -
  let ?st = "generate lit (take n rows)"
  let ?v = "column d (rows ! n)"
  have "table d (generate lit rows) =
          foldl intern (intern (table d ?st) ?v) (map (column d) (drop (Suc n) rows))"
    by (simp add: generate_split [OF assms] table_foldl table_process_row)
  then show ?thesis
    by (simp add: map_of_foldl_intern_stable [OF map_of_intern_self])
qed

lemma link_in_abox:
  assumes "n < length rows"
  shows "\<exists>i. map_of (table d (generate lit rows)) (column d (rows ! n)) = Some i \<and>
             (link_subject d (Suc n) (rows ! n), link_predicate d, MH (uri_prefix d @ str_nat i))
               \<in> set (abox (generate lit rows))"
proof -
  let ?st = "generate lit (take n rows)"
  have c: "mental_health_counter ?st = Suc n" "lifestyle_counter ?st = Suc n"
    using assms by (simp_all add: counters_generate)
  have "(link_subject d (Suc n) (rows ! n), link_predicate d,
          MH (uri_prefix d @ str_nat (ident (table d ?st) (column d (rows ! n)))))
        \<in> row_triples lit ?st (rows ! n)"
    by (rule link_in_row_triples [OF c])
  with row_triples_in_abox [OF assms] final_identifier [OF assms, of d]
  show ?thesis by blast
qed

lemma zip_snd_inject:
  assumes "distinct ys" and "(a, c) \<in> set (zip xs ys)" and "(b, c) \<in> set (zip xs ys)"
  shows "a = b"
proof -
  from assms(2) obtain i where i: "i < length xs" "i < length ys" "xs ! i = a" "ys ! i = c"
    by (auto simp: in_set_zip)
  from assms(3) obtain j where j: "j < length xs" "j < length ys" "xs ! j = b" "ys ! j = c"
    by (auto simp: in_set_zip)
  from assms(1) i j have "i = j" by (metis nth_eq_iff_index_eq)
  with i j show ?thesis by simp
qed

lemma table_first_seen:
  "table d (generate lit rows) =
     zip (first_seen (map (column d) rows)) [1..<Suc (card (set (map (column d) rows)))]"
  by (simp only: table_generate foldl_intern_first_seen)

lemma table_keys: "map fst (table d (generate lit rows)) = first_seen (map (column d) rows)"
  unfolding table_first_seen by (simp add: length_first_seen del: upt_Suc)

lemma table_ids:
  "map snd (table d (generate lit rows)) = [1..<Suc (card (set (map (column d) rows)))]"
  unfolding table_first_seen by (simp add: length_first_seen del: upt_Suc)

lemma table_dom: "fst ` set (table d (generate lit rows)) = set (map (column d) rows)"
  by (metis table_keys set_first_seen set_map)

lemma table_ran: "snd ` set (table d (generate lit rows)) = {1..card (set (map (column d) rows))}"
proof -
  have "snd ` set (table d (generate lit rows)) = set [1..<Suc (card (set (map (column d) rows)))]"
    by (metis table_ids set_map)
  then show ?thesis
    by (simp add: atLeastLessThanSuc_atLeastAtMost del: upt_Suc)
qed

lemma table_inj:
  assumes v: "v \<in> set (map (column d) rows)"
    and e: "map_of (table d (generate lit rows)) v = map_of (table d (generate lit rows)) w"
  shows "v = w"
proof -
  let ?m = "table d (generate lit rows)"
  from v table_dom [where d = d and rows = rows and lit = lit] have "v \<in> fst ` set ?m" by simp
  then obtain a where a: "map_of ?m v = Some a"
    by (metis map_of_eq_None_iff option.exhaust)
  with e have b: "map_of ?m w = Some a" by simp
  have "(v, a) \<in> set ?m" "(w, a) \<in> set ?m"
    using map_of_SomeD [OF a] map_of_SomeD [OF b] by blast+
  then have "(v, a) \<in> set (zip (first_seen (map (column d) rows))
                  [1..<Suc (card (set (map (column d) rows)))])"
    and "(w, a) \<in> set (zip (first_seen (map (column d) rows))
                  [1..<Suc (card (set (map (column d) rows)))])"
    by (simp_all only: table_first_seen [where lit = lit, symmetric])
  then show "v = w"
    by (rule zip_snd_inject [OF distinct_upt])
qed

lemma in_new_entity:
  "(s, p, ob) \<in> new_entity pr c m v \<longleftrightarrow>
     map_of m v = None \<and> s = MH (pr @ str_nat (length m + 1)) \<and>
     (p = RDF_type \<and> ob = c \<or> p = SKOS_prefLabel \<and> ob = Literal v None None)"
  by (auto simp: new_entity_def split: option.splits)

lemma in_new_country:
  "(s, p, ob) \<in> new_country m v \<longleftrightarrow>
     map_of m v = None \<and> s = MH (''country/'' @ str_nat (length m + 1)) \<and>
     (p = RDF_type \<and> ob = MH ''Country'' \<or> p = SKOS_prefLabel \<and> ob = Literal v None None \<or>
      p = OWL_sameAs \<and> map_of country_wd_map v = Some (Some ob))"
  by (auto simp: new_country_def split: option.splits)

lemmas vocabulary_defs = MH_def ex_def RDF_type_def RDFS_label_def SKOS_prefLabel_def OWL_sameAs_def

lemma hasCountry_row:
  "(s, MH ''hasCountry'', ob) \<in> row_triples lit st r \<longleftrightarrow>
     s = MH (''user/'' @ User_ID r) \<and>
     ob = MH (''country/'' @ str_nat (ident (country_map st) (Country r)))"
  unfolding row_triples_def Let_def
  by (simp add: in_new_entity in_new_country vocabulary_defs)

lemma type_MentalHealth_row:
  "(s, RDF_type, MH ''MentalHealth'') \<in> row_triples lit st r \<longleftrightarrow>
     s = MH (''mental_health/'' @ str_nat (mental_health_counter st))"
  unfolding row_triples_def Let_def
  by (simp add: in_new_entity in_new_country vocabulary_defs)

lemma type_Lifestyle_row:
  "(s, RDF_type, MH ''Lifestyle'') \<in> row_triples lit st r \<longleftrightarrow>
     s = MH (''lifestyle/'' @ str_nat (lifestyle_counter st))"
  unfolding row_triples_def Let_def
  by (simp add: in_new_entity in_new_country vocabulary_defs)

lemma type_MentalHealth_abox:
  "(s, RDF_type, MH ''MentalHealth'') \<in> set (abox (generate lit rows)) \<longleftrightarrow>
     (\<exists>n<length rows. s = MH (''mental_health/'' @ str_nat (Suc n)))"
  by (auto simp: generate_abox type_MentalHealth_row counters_generate)

lemma type_Lifestyle_abox:
  "(s, RDF_type, MH ''Lifestyle'') \<in> set (abox (generate lit rows)) \<longleftrightarrow>
     (\<exists>n<length rows. s = MH (''lifestyle/'' @ str_nat (Suc n)))"
  by (auto simp: generate_abox type_Lifestyle_row counters_generate)

lemma numbered_uris:
  "{s. \<exists>n<N. s = MH (p @ str_nat (Suc n))} = (\<lambda>k. MH (p @ str_nat k)) ` {1..N}"
proof -
  have "{1..N} = Suc ` {..<N}"
    by (simp add: image_Suc_lessThan)
  then show ?thesis by auto
qed

lemma card_numbered_uris: "card ((\<lambda>k. MH (p @ str_nat k)) ` {1..N}) = N"
proof -
  have "inj_on (\<lambda>k. MH (p @ str_nat k)) {1..N}"
    by (simp add: inj_on_def MH_inject str_nat_inject)
  then show ?thesis by (simp add: card_image)
qed

lemma label_in_row_triples:
  "(MH (''mental_health/'' @ str_nat (mental_health_counter st)), RDFS_label,
      lit (Mental_Health_Condition r) None) \<in> row_triples lit st r"
  unfolding row_triples_def Let_def by (simp only: Un_iff insert_iff simp_thms)

lemma entity_in_row_triples:
  assumes "map_of (table d st) (column d r) = None"
  shows "(MH (uri_prefix d @ str_nat (ident (table d st) (column d r))), RDF_type,
            dimension_class d) \<in> row_triples lit st r"
    and "(MH (uri_prefix d @ str_nat (ident (table d st) (column d r))), SKOS_prefLabel,
            Literal (column d r) None None) \<in> row_triples lit st r"
  using assms unfolding row_triples_def Let_def
  by (cases d; simp add: in_new_entity in_new_country ident_def)+

lemma entity_in_abox:
  assumes "n < length rows"
  shows "\<exists>i. map_of (table d (generate lit rows)) (column d (rows ! n)) = Some i \<and>
             (MH (uri_prefix d @ str_nat i), RDF_type, dimension_class d)
               \<in> set (abox (generate lit rows)) \<and>
             (MH (uri_prefix d @ str_nat i), SKOS_prefLabel, Literal (column d (rows ! n)) None None)
               \<in> set (abox (generate lit rows))"
proof -
  let ?vs = "map (column d) rows"
  let ?v = "column d (rows ! n)"
  define j where "j = (LEAST j. j < length rows \<and> column d (rows ! j) = ?v)"
  have ex: "n < length rows \<and> column d (rows ! n) = ?v" using assms by simp
  have j: "j < length rows" "column d (rows ! j) = ?v"
    using LeastI [of "\<lambda>j. j < length rows \<and> column d (rows ! j) = ?v" n, OF ex]
    by (simp_all add: j_def)
  have least: "\<And>k. k < j \<Longrightarrow> column d (rows ! k) \<noteq> ?v"
  proof
    fix k assume "k < j" and "column d (rows ! k) = ?v"
    with j(1) have "k < length rows \<and> column d (rows ! k) = ?v" by simp
    then have "j \<le> k" unfolding j_def by (rule Least_le)
    with \<open>k < j\<close> show False by simp
  qed
  let ?st = "generate lit (take j rows)"
  have "?v \<notin> set (map (column d) (take j rows))"
  proof
    assume "?v \<in> set (map (column d) (take j rows))"
    then obtain k where "k < length (take j rows)" "column d (take j rows ! k) = ?v"
      by (auto simp: in_set_conv_nth)
    then have "k < j" "column d (rows ! k) = ?v" by simp_all
    with least show False by blast
  qed
  then have "?v \<notin> fst ` set (table d ?st)"
    by (metis table_dom)
  then have none: "map_of (table d ?st) (column d (rows ! j)) = None"
    by (simp add: map_of_eq_None_iff j(2))
  have fin: "map_of (table d (generate lit rows)) ?v = Some (ident (table d ?st) ?v)"
    using final_identifier [OF j(1), of d] j(2) by simp
  have "(MH (uri_prefix d @ str_nat (ident (table d ?st) ?v)), RDF_type, dimension_class d)
          \<in> row_triples lit ?st (rows ! j)"
    and "(MH (uri_prefix d @ str_nat (ident (table d ?st) ?v)), SKOS_prefLabel,
            Literal ?v None None) \<in> row_triples lit ?st (rows ! j)"
    using entity_in_row_triples [OF none] j(2) by simp_all
  with row_triples_in_abox [OF j(1)] fin show ?thesis by blast
qed

subsection \<open>Dimension identifiers\<close>

lemma str_nat_digit: "n < 10 \<Longrightarrow> str_nat n = [digit_char n]"
  by (subst str_nat.simps) simp

lemma str_nat_1: "str_nat (Suc 0) = ''1''"
  by code_simp

lemma str_nat_2: "str_nat 2 = ''2''"
  by code_simp

lemma str_nat_3: "str_nat 3 = ''3''"
  by code_simp

lemma upt_1_3: "[1..<Suc 2] = [1, 2]"
  by (simp add: upt_rec)

text \<open>
  C1. For every dimension and every input whose cells in the dimension's column are text,
  the table after the run pairs the distinct values of the column, in order of first
  occurrence, with 1, 2, ..., k, where k is the number of distinct values. Each value has one entry (the mapping is a function), two
  values never share an identifier, distinct identifiers give distinct URIs, the
  identifiers are exactly 1..k, and the link triple of every row carries the identifier
  the final table gives for the row's value (one identifier per value for the whole run).
\<close>

theorem dimension_identifiers:
  "table d (generate lit rows) =
      zip (first_seen (map (column d) rows)) [1..<Suc (card (set (map (column d) rows)))]
   \<and> distinct (map fst (table d (generate lit rows)))
   \<and> fst ` set (table d (generate lit rows)) = set (map (column d) rows)
   \<and> snd ` set (table d (generate lit rows)) = {1..card (set (map (column d) rows))}
   \<and> (\<forall>v\<in>set (map (column d) rows). \<forall>w.
         map_of (table d (generate lit rows)) v = map_of (table d (generate lit rows)) w \<longrightarrow> v = w)
   \<and> (\<forall>i j. MH (uri_prefix d @ str_nat i) = MH (uri_prefix d @ str_nat j) \<longrightarrow> i = j)
   \<and> (\<forall>n<length rows. \<exists>i.
         map_of (table d (generate lit rows)) (column d (rows ! n)) = Some i \<and>
         (link_subject d (Suc n) (rows ! n), link_predicate d, MH (uri_prefix d @ str_nat i))
           \<in> set (abox (generate lit rows)))"
proof (intro conjI)
  show "table d (generate lit rows) =
      zip (first_seen (map (column d) rows)) [1..<Suc (card (set (map (column d) rows)))]"
    by (rule table_first_seen)
  show "distinct (map fst (table d (generate lit rows)))"
    by (simp only: table_keys distinct_first_seen)
  show "fst ` set (table d (generate lit rows)) = set (map (column d) rows)"
    by (rule table_dom)
  show "snd ` set (table d (generate lit rows)) = {1..card (set (map (column d) rows))}"
    by (rule table_ran)
  show "\<forall>v\<in>set (map (column d) rows). \<forall>w.
         map_of (table d (generate lit rows)) v = map_of (table d (generate lit rows)) w \<longrightarrow> v = w"
    using table_inj by blast
  show "\<forall>i j. MH (uri_prefix d @ str_nat i) = MH (uri_prefix d @ str_nat j) \<longrightarrow> i = j"
    by (simp add: MH_inject str_nat_inject)
  show "\<forall>n<length rows. \<exists>i.
         map_of (table d (generate lit rows)) (column d (rows ! n)) = Some i \<and>
         (link_subject d (Suc n) (rows ! n), link_predicate d, MH (uri_prefix d @ str_nat i))
           \<in> set (abox (generate lit rows))"
    using link_in_abox by blast
qed

lemma scenario_countries: "map (column D_country) scenario_rows = [''USA'', ''India'', ''USA'']"
  by (simp add: scenario_rows_def)

lemma card_scenario_countries: "card (set [''USA'', ''India'', ''USA'']) = 2"
  by code_simp

text \<open>C1 at the three scenario rows, for the country dimension.\<close>

theorem dimension_identifiers_witness:
  "country_map (generate keep_text scenario_rows) = [(''USA'', 1), (''India'', 2)]
   \<and> (MH ''user/3'', MH ''hasCountry'', MH ''country/1'') \<in> set (abox (generate keep_text scenario_rows))"
proof -
  note t = dimension_identifiers [where d = D_country and rows = scenario_rows and lit = keep_text]
  from t have m: "table D_country (generate keep_text scenario_rows) = [(''USA'', 1), (''India'', 2)]"
    by (simp only: scenario_countries card_scenario_countries first_seen.simps removeAll.simps
        upt_1_3 zip.simps list.case list.inject char.inject simp_thms if_True if_False)
  have l: "(2::nat) < length scenario_rows" by (simp add: scenario_rows_def)
  from t l obtain i where
    i: "map_of (table D_country (generate keep_text scenario_rows)) (column D_country (scenario_rows ! 2)) = Some i"
    and tr: "(link_subject D_country (Suc 2) (scenario_rows ! 2), link_predicate D_country,
          MH (uri_prefix D_country @ str_nat i)) \<in> set (abox (generate keep_text scenario_rows))"
    by blast
  from i have "i = 1" unfolding m by (simp add: scenario_rows_def)
  with tr have "(MH ''user/3'', MH ''hasCountry'', MH ''country/1'')
      \<in> set (abox (generate keep_text scenario_rows))"
    by (simp add: scenario_rows_def str_nat_1)
  with m show ?thesis by simp
qed

subsection \<open>MentalHealth and Lifestyle entities\<close>

lemma label_in_abox:
  assumes "n < length rows"
  shows "(MH (''mental_health/'' @ str_nat (Suc n)), RDFS_label,
            lit (Mental_Health_Condition (rows ! n)) None) \<in> set (abox (generate lit rows))"
proof -
  have "mental_health_counter (generate lit (take n rows)) = Suc n"
    using assms by (simp add: counters_generate)
  with label_in_row_triples [where st = "generate lit (take n rows)" and r = "rows ! n" and lit = lit]
    row_triples_in_abox [OF assms]
  show ?thesis by auto
qed

lemma dimension_link_in_abox:
  assumes "n < length rows"
  shows "\<exists>i. (link_subject d (Suc n) (rows ! n), link_predicate d, MH (uri_prefix d @ str_nat i))
               \<in> set (abox (generate lit rows)) \<and>
             (MH (uri_prefix d @ str_nat i), RDF_type, dimension_class d)
               \<in> set (abox (generate lit rows)) \<and>
             (MH (uri_prefix d @ str_nat i), SKOS_prefLabel, Literal (column d (rows ! n)) None None)
               \<in> set (abox (generate lit rows))"
  using link_in_abox [OF assms, where d = d and lit = lit]
    entity_in_abox [OF assms, where d = d and lit = lit] by auto

text \<open>
  C5. For every input of N rows, the subjects typed MentalHealth are exactly
  \<open>mental_health/1\<close> ... \<open>mental_health/N\<close>, N distinct entities, and the subjects
  typed Lifestyle are exactly \<open>lifestyle/1\<close> ... \<open>lifestyle/N\<close>: one per row,
  whatever the rows' values. The MentalHealth entity of row n carries a label, the
  literal the constructor builds from the row's condition cell, and a link to a severity,
  a consultation, a stress and a medication entity; the Lifestyle entity of row n links
  to a diet, a smoking and an alcohol entity; each link target is typed with the
  dimension's class and labelled with the row's (text) value.
\<close>

theorem one_fact_entity_per_row:
  "{s. (s, RDF_type, MH ''MentalHealth'') \<in> set (abox (generate lit rows))}
      = (\<lambda>k. MH (''mental_health/'' @ str_nat k)) ` {1..length rows}
   \<and> card {s. (s, RDF_type, MH ''MentalHealth'') \<in> set (abox (generate lit rows))} = length rows
   \<and> {s. (s, RDF_type, MH ''Lifestyle'') \<in> set (abox (generate lit rows))}
      = (\<lambda>k. MH (''lifestyle/'' @ str_nat k)) ` {1..length rows}
   \<and> card {s. (s, RDF_type, MH ''Lifestyle'') \<in> set (abox (generate lit rows))} = length rows
   \<and> (\<forall>n<length rows.
         (MH (''mental_health/'' @ str_nat (Suc n)), RDFS_label,
            lit (Mental_Health_Condition (rows ! n)) None) \<in> set (abox (generate lit rows))
       \<and> (\<forall>d\<in>mental_health_dimensions \<union> lifestyle_dimensions. \<exists>i.
            (link_subject d (Suc n) (rows ! n), link_predicate d, MH (uri_prefix d @ str_nat i))
               \<in> set (abox (generate lit rows)) \<and>
            (MH (uri_prefix d @ str_nat i), RDF_type, dimension_class d)
               \<in> set (abox (generate lit rows)) \<and>
            (MH (uri_prefix d @ str_nat i), SKOS_prefLabel,
               Literal (column d (rows ! n)) None None) \<in> set (abox (generate lit rows))))"
proof -
  have mh: "{s. (s, RDF_type, MH ''MentalHealth'') \<in> set (abox (generate lit rows))}
      = (\<lambda>k. MH (''mental_health/'' @ str_nat k)) ` {1..length rows}"
    by (simp only: type_MentalHealth_abox numbered_uris)
  have ls: "{s. (s, RDF_type, MH ''Lifestyle'') \<in> set (abox (generate lit rows))}
      = (\<lambda>k. MH (''lifestyle/'' @ str_nat k)) ` {1..length rows}"
    by (simp only: type_Lifestyle_abox numbered_uris)
  have cmh: "card {s. (s, RDF_type, MH ''MentalHealth'') \<in> set (abox (generate lit rows))}
      = length rows"
    by (simp only: mh card_numbered_uris)
  have cls: "card {s. (s, RDF_type, MH ''Lifestyle'') \<in> set (abox (generate lit rows))}
      = length rows"
    by (simp only: ls card_numbered_uris)
  have rows: "\<forall>n<length rows.
         (MH (''mental_health/'' @ str_nat (Suc n)), RDFS_label,
            lit (Mental_Health_Condition (rows ! n)) None) \<in> set (abox (generate lit rows))
       \<and> (\<forall>d\<in>mental_health_dimensions \<union> lifestyle_dimensions. \<exists>i.
            (link_subject d (Suc n) (rows ! n), link_predicate d, MH (uri_prefix d @ str_nat i))
               \<in> set (abox (generate lit rows)) \<and>
            (MH (uri_prefix d @ str_nat i), RDF_type, dimension_class d)
               \<in> set (abox (generate lit rows)) \<and>
            (MH (uri_prefix d @ str_nat i), SKOS_prefLabel,
               Literal (column d (rows ! n)) None None) \<in> set (abox (generate lit rows)))"
  proof (intro allI impI conjI ballI)
    fix n assume n: "n < length rows"
    show "(MH (''mental_health/'' @ str_nat (Suc n)), RDFS_label,
            lit (Mental_Health_Condition (rows ! n)) None) \<in> set (abox (generate lit rows))"
      by (rule label_in_abox [OF n])
    fix d
    show "\<exists>i.
            (link_subject d (Suc n) (rows ! n), link_predicate d, MH (uri_prefix d @ str_nat i))
               \<in> set (abox (generate lit rows)) \<and>
            (MH (uri_prefix d @ str_nat i), RDF_type, dimension_class d)
               \<in> set (abox (generate lit rows)) \<and>
            (MH (uri_prefix d @ str_nat i), SKOS_prefLabel,
               Literal (column d (rows ! n)) None None) \<in> set (abox (generate lit rows))"
      by (rule dimension_link_in_abox [OF n])
  qed
  show ?thesis
    by (intro conjI) (rule mh cmh ls cls rows)+
qed

text \<open>
  C5 at the three scenario rows: rows 1 and 3 have the same mental-health and lifestyle
  values and still get entities of their own.
\<close>

theorem one_fact_entity_per_row_witness:
  "card {s. (s, RDF_type, MH ''MentalHealth'') \<in> set (abox (generate keep_text scenario_rows))} = 3
   \<and> card {s. (s, RDF_type, MH ''Lifestyle'') \<in> set (abox (generate keep_text scenario_rows))} = 3
   \<and> (MH ''mental_health/3'', RDFS_label, Literal ''Yes'' None None)
        \<in> set (abox (generate keep_text scenario_rows))
   \<and> (\<exists>i. (MH ''mental_health/3'', MH ''hasSeverity'', MH (''severity/'' @ str_nat i))
              \<in> set (abox (generate keep_text scenario_rows)) \<and>
            (MH (''severity/'' @ str_nat i), SKOS_prefLabel, Literal ''High'' None None)
              \<in> set (abox (generate keep_text scenario_rows)))"
proof -
  note t = one_fact_entity_per_row [where rows = scenario_rows and lit = keep_text]
  have len: "length scenario_rows = 3" by (simp add: scenario_rows_def)
  have l: "(2::nat) < length scenario_rows" by (simp add: len)
  have d: "D_severity \<in> mental_health_dimensions \<union> lifestyle_dimensions"
    by (simp add: mental_health_dimensions_def)
  from t l have lab: "(MH (''mental_health/'' @ str_nat (Suc 2)), RDFS_label,
            keep_text (Mental_Health_Condition (scenario_rows ! 2)) None)
          \<in> set (abox (generate keep_text scenario_rows))"
    by blast
  from t l d have "\<exists>i.
            (link_subject D_severity (Suc 2) (scenario_rows ! 2), link_predicate D_severity,
               MH (uri_prefix D_severity @ str_nat i)) \<in> set (abox (generate keep_text scenario_rows)) \<and>
            (MH (uri_prefix D_severity @ str_nat i), RDF_type, dimension_class D_severity)
               \<in> set (abox (generate keep_text scenario_rows)) \<and>
            (MH (uri_prefix D_severity @ str_nat i), SKOS_prefLabel,
               Literal (column D_severity (scenario_rows ! 2)) None None)
               \<in> set (abox (generate keep_text scenario_rows))"
    by blast
  then obtain i where
    sev: "(MH (''mental_health/'' @ str_nat (Suc 2)), MH ''hasSeverity'', MH (''severity/'' @ str_nat i))
       \<in> set (abox (generate keep_text scenario_rows))"
    and lbl: "(MH (''severity/'' @ str_nat i), SKOS_prefLabel, Literal ''High'' None None)
       \<in> set (abox (generate keep_text scenario_rows))"
    by (auto simp: scenario_rows_def)
  have three: "str_nat (Suc 2) = ''3''"
    using str_nat_3 by (simp add: numeral_3_eq_3)
  from t have c1: "card {s. (s, RDF_type, MH ''MentalHealth'') \<in> set (abox (generate keep_text scenario_rows))} = 3"
    and c2: "card {s. (s, RDF_type, MH ''Lifestyle'') \<in> set (abox (generate keep_text scenario_rows))} = 3"
    unfolding len by blast+
  from lab have l3: "(MH ''mental_health/3'', RDFS_label, Literal ''Yes'' None None)
        \<in> set (abox (generate keep_text scenario_rows))"
    unfolding three by (simp add: scenario_rows_def keep_text_def)
  from sev have s3: "(MH ''mental_health/3'', MH ''hasSeverity'', MH (''severity/'' @ str_nat i))
       \<in> set (abox (generate keep_text scenario_rows))"
    unfolding three by simp
  from c1 c2 l3 s3 lbl show ?thesis by blast
qed

subsection \<open>The country scenario\<close>

lemma person_in_row_triples:
  "(MH (''user/'' @ User_ID r), RDF_type, MH ''Person'') \<in> row_triples lit st r"
  unfolding row_triples_def Let_def by (simp only: Un_iff insert_iff simp_thms)

lemma person_in_abox:
  "n < length rows \<Longrightarrow>
     (MH (''user/'' @ User_ID (rows ! n)), RDF_type, MH ''Person'') \<in> set (abox (generate lit rows))"
  using person_in_row_triples row_triples_in_abox by blast

lemma hasCountry_abox:
  "(s, MH ''hasCountry'', ob) \<in> set (abox (generate lit rows)) \<longleftrightarrow>
     (\<exists>n<length rows. s = MH (''user/'' @ User_ID (rows ! n)) \<and>
        (\<exists>i. map_of (country_map (generate lit rows)) (Country (rows ! n)) = Some i \<and>
             ob = MH (''country/'' @ str_nat i)))"
proof -
  have fin: "\<And>n. n < length rows \<Longrightarrow>
      map_of (country_map (generate lit rows)) (Country (rows ! n)) =
        Some (ident (country_map (generate lit (take n rows))) (Country (rows ! n)))"
    using final_identifier [where rows = rows and d = D_country and lit = lit] by simp
  show ?thesis
    by (auto simp: generate_abox hasCountry_row fin)
qed

lemma country_persons:
  "{s. (s, RDF_type, MH ''Person'') \<in> set (abox (generate lit rows)) \<and>
       (s, MH ''hasCountry'', MH (''country/'' @ str_nat i)) \<in> set (abox (generate lit rows))}
   = {MH (''user/'' @ User_ID (rows ! n)) | n.
        n < length rows \<and> map_of (country_map (generate lit rows)) (Country (rows ! n)) = Some i}"
  by (auto simp: hasCountry_abox MH_inject str_nat_inject intro: person_in_abox [simplified])

lemma hasCountry_link:
  assumes "n < length rows"
    and "map_of (country_map (generate lit rows)) (Country (rows ! n)) = Some i"
  shows "(MH (''user/'' @ User_ID (rows ! n)), MH ''hasCountry'', MH (''country/'' @ str_nat i))
           \<in> set (abox (generate lit rows))"
  unfolding hasCountry_abox using assms by blast

text \<open>
  C4. For every input of three rows whose countries are USA, India, USA in that order,
  the country table after the run is USA:1, India:2; the Persons of rows 1 and 3 link to
  \<open>country/1\<close> and the Person of row 2 links to \<open>country/2\<close>; and when the three user
  identifiers are pairwise distinct (a Person is identified by its row's user
  identifier), exactly two Person entities link to \<open>country/1\<close> and exactly one to
  \<open>country/2\<close>.
\<close>

theorem country_scenario:
  assumes "map Country rows = [''USA'', ''India'', ''USA'']"
  shows "country_map (generate lit rows) = [(''USA'', 1), (''India'', 2)]
     \<and> (MH (''user/'' @ User_ID (rows ! 0)), MH ''hasCountry'', MH ''country/1'')
          \<in> set (abox (generate lit rows))
     \<and> (MH (''user/'' @ User_ID (rows ! 1)), MH ''hasCountry'', MH ''country/2'')
          \<in> set (abox (generate lit rows))
     \<and> (MH (''user/'' @ User_ID (rows ! 2)), MH ''hasCountry'', MH ''country/1'')
          \<in> set (abox (generate lit rows))
     \<and> (distinct (map User_ID rows) \<longrightarrow>
          card {s. (s, RDF_type, MH ''Person'') \<in> set (abox (generate lit rows)) \<and>
                   (s, MH ''hasCountry'', MH ''country/1'') \<in> set (abox (generate lit rows))} = 2
        \<and> card {s. (s, RDF_type, MH ''Person'') \<in> set (abox (generate lit rows)) \<and>
                   (s, MH ''hasCountry'', MH ''country/2'') \<in> set (abox (generate lit rows))} = 1)"
proof -
  define u where "u n = MH (''user/'' @ User_ID (rows ! n))" for n
  define m where "m = country_map (generate lit rows)"
  from assms have len: "length rows = 3"
    by (metis length_map length_Cons list.size(3) numeral_3_eq_3)
  have "map (column D_country) rows = map Country rows" by simp
  with assms have cols: "map (column D_country) rows = [''USA'', ''India'', ''USA'']"
    by simp
  have nth: "\<And>n. n < 3 \<Longrightarrow> Country (rows ! n) = [''USA'', ''India'', ''USA''] ! n"
    using assms len by (metis nth_map)
  have c0: "Country (rows ! 0) = ''USA''" using nth [of 0] by simp
  have c1: "Country (rows ! 1) = ''India''" using nth [of 1] by simp
  have c2: "Country (rows ! 2) = ''USA''" using nth [of 2] by simp
  have "table D_country (generate lit rows) = [(''USA'', 1), (''India'', 2)]"
    by (simp only: table_first_seen cols card_scenario_countries first_seen.simps
        removeAll.simps upt_1_3 zip.simps list.case list.inject char.inject simp_thms
        if_True if_False)
  then have m: "m = [(''USA'', 1), (''India'', 2)]" by (simp add: m_def)
  have i0: "map_of m (Country (rows ! 0)) = Some 1" unfolding m c0 by simp
  have i1: "map_of m (Country (rows ! 1)) = Some 2" unfolding m c1 by simp
  have i2: "map_of m (Country (rows ! 2)) = Some 1" unfolding m c2 by simp
  have one: "''country/'' @ str_nat 1 = ''country/1''"
    and two: "''country/'' @ str_nat 2 = ''country/2''"
    using str_nat_1 str_nat_2 by simp_all
  have l0: "(u 0, MH ''hasCountry'', MH ''country/1'') \<in> set (abox (generate lit rows))"
    using hasCountry_link [where n = 0 and rows = rows and i = 1 and lit = lit] i0 len unfolding m_def u_def one by simp
  have l1: "(u 1, MH ''hasCountry'', MH ''country/2'') \<in> set (abox (generate lit rows))"
    using hasCountry_link [where n = 1 and rows = rows and i = 2 and lit = lit] i1 len unfolding m_def u_def two by simp
  have l2: "(u 2, MH ''hasCountry'', MH ''country/1'') \<in> set (abox (generate lit rows))"
    using hasCountry_link [where n = 2 and rows = rows and i = 1 and lit = lit] i2 len unfolding m_def u_def one by simp
  have idx: "\<And>n. n < length rows \<longleftrightarrow> n = 0 \<or> n = 1 \<or> n = 2"
    unfolding len by auto
  have w1: "\<And>n. (n < length rows \<and> map_of m (Country (rows ! n)) = Some 1) \<longleftrightarrow> n = 0 \<or> n = 2"
    unfolding idx using i0 i1 i2 by auto
  have w2: "\<And>n. (n < length rows \<and> map_of m (Country (rows ! n)) = Some 2) \<longleftrightarrow> n = 1"
    unfolding idx using i0 i1 i2 by auto
  have s1: "{s. (s, RDF_type, MH ''Person'') \<in> set (abox (generate lit rows)) \<and>
                (s, MH ''hasCountry'', MH ''country/1'') \<in> set (abox (generate lit rows))}
            = {u 0, u 2}"
  proof -
    have "{s. (s, RDF_type, MH ''Person'') \<in> set (abox (generate lit rows)) \<and>
                (s, MH ''hasCountry'', MH (''country/'' @ str_nat 1)) \<in> set (abox (generate lit rows))}
          = {u n | n. n < length rows \<and> map_of m (Country (rows ! n)) = Some 1}"
      unfolding u_def m_def by (rule country_persons)
    also have "\<dots> = {u n | n. n = 0 \<or> n = 2}" unfolding w1 ..
    also have "\<dots> = {u 0, u 2}" by blast
    finally show ?thesis unfolding one .
  qed
  have s2: "{s. (s, RDF_type, MH ''Person'') \<in> set (abox (generate lit rows)) \<and>
                (s, MH ''hasCountry'', MH ''country/2'') \<in> set (abox (generate lit rows))}
            = {u 1}"
  proof -
    have "{s. (s, RDF_type, MH ''Person'') \<in> set (abox (generate lit rows)) \<and>
                (s, MH ''hasCountry'', MH (''country/'' @ str_nat 2)) \<in> set (abox (generate lit rows))}
          = {u n | n. n < length rows \<and> map_of m (Country (rows ! n)) = Some 2}"
      unfolding u_def m_def by (rule country_persons)
    also have "\<dots> = {u n | n. n = 1}" unfolding w2 ..
    also have "\<dots> = {u 1}" by blast
    finally show ?thesis unfolding two .
  qed
  have cnt: "u 0 \<noteq> u 2" if "distinct (map User_ID rows)"
  proof -
    have "(0::nat) < length (map User_ID rows)" "(2::nat) < length (map User_ID rows)"
      using len by simp_all
    with that have "map User_ID rows ! 0 \<noteq> map User_ID rows ! 2"
      by (metis nth_eq_iff_index_eq zero_neq_numeral)
    moreover have "map User_ID rows ! 0 = User_ID (rows ! 0)"
      "map User_ID rows ! 2 = User_ID (rows ! 2)"
      using len by simp_all
    ultimately show ?thesis by (simp add: u_def MH_inject)
  qed
  have cards: "distinct (map User_ID rows) \<longrightarrow> card {u 0, u 2} = 2 \<and> card {u 1} = 1"
    using cnt by simp
  show ?thesis
    using m l0 l1 l2 cards unfolding s1 s2 unfolding u_def m_def by blast
qed

text \<open>C4 at the three scenario rows, whose user identifiers are 1, 2, 3.\<close>

theorem country_scenario_witness:
  "map Country scenario_rows = [''USA'', ''India'', ''USA'']
   \<and> distinct (map User_ID scenario_rows)
   \<and> country_map (generate keep_text scenario_rows) = [(''USA'', 1), (''India'', 2)]
   \<and> (MH ''user/2'', MH ''hasCountry'', MH ''country/2'') \<in> set (abox (generate keep_text scenario_rows))
   \<and> card {s. (s, RDF_type, MH ''Person'') \<in> set (abox (generate keep_text scenario_rows)) \<and>
              (s, MH ''hasCountry'', MH ''country/1'') \<in> set (abox (generate keep_text scenario_rows))} = 2
   \<and> card {s. (s, RDF_type, MH ''Person'') \<in> set (abox (generate keep_text scenario_rows)) \<and>
              (s, MH ''hasCountry'', MH ''country/2'') \<in> set (abox (generate keep_text scenario_rows))} = 1"
proof -
  have a: "map Country scenario_rows = [''USA'', ''India'', ''USA'']"
    by (simp add: scenario_rows_def)
  have b: "distinct (map User_ID scenario_rows)"
    by (simp add: scenario_rows_def)
  have u: "User_ID (scenario_rows ! 1) = ''2''" by (simp add: scenario_rows_def)
  from country_scenario [OF a] b u a show ?thesis by simp
qed

section \<open>Properties of the benchmark runner\<close>

subsection \<open>What the subsampler keeps\<close>

lemma preserves_graphs_refl: "preserves_graphs w w"
  by (simp add: preserves_graphs_def)

lemma preserves_graphs_trans:
  "preserves_graphs w w1 \<Longrightarrow> preserves_graphs w1 w2 \<Longrightarrow> preserves_graphs w w2"
  by (auto simp: preserves_graphs_def)

lemma graph_add_simps:
  "graphs (graph_add w g t) = (graphs w)(g := add (graphs w g) t)"
  "allocated (graph_add w g t) = allocated w"
  "ticks (graph_add w g t) = ticks w"
  by (simp_all add: graph_add_def)

lemma subsample_loop_Cons:
  "subsample_loop (t # ts) T sub w =
     (if person_rooted t \<and> row_identifier t = None then (Some ValueError, w)
      else if kept T t then subsample_loop ts T sub (graph_add w sub t)
      else subsample_loop ts T sub w)"
proof -
  obtain s p ob where t: "t = (s, p, ob)" by (cases t)
  show ?thesis
    unfolding t
    by (simp add: person_rooted_def row_identifier_def dimension_rooted_def kept_def
        split: option.splits)
qed

lemma subsample_loop_other:
  "a \<noteq> sub \<Longrightarrow> graphs (snd (subsample_loop ts T sub w)) a = graphs w a"
  by (induction ts arbitrary: w) (simp_all add: subsample_loop_Cons graph_add_simps)

lemma subsample_loop_allocated: "allocated (snd (subsample_loop ts T sub w)) = allocated w"
  by (induction ts arbitrary: w) (simp_all add: subsample_loop_Cons graph_add_simps)

lemma subsample_loop_ticks: "ticks (snd (subsample_loop ts T sub w)) = ticks w"
  by (induction ts arbitrary: w) (simp_all add: subsample_loop_Cons graph_add_simps)

lemma subsample_loop_returns:
  "well_formed_subjects ts \<Longrightarrow>
     fst (subsample_loop ts T sub w) = None \<and>
     set (graphs (snd (subsample_loop ts T sub w)) sub) =
       set (graphs w sub) \<union> {t \<in> set ts. kept T t}"
  by (induction ts arbitrary: w)
     (auto simp: subsample_loop_Cons graph_add_simps well_formed_subjects_def set_add)

lemma subsample_loop_raises:
  "\<not> well_formed_subjects ts \<Longrightarrow> fst (subsample_loop ts T sub w) = Some ValueError"
  by (induction ts arbitrary: w)
     (auto simp: subsample_loop_Cons well_formed_subjects_def)

lemma new_graph_simps:
  "fst (new_graph w) = allocated w"
  "graphs (snd (new_graph w)) = (graphs w)(allocated w := [])"
  "allocated (snd (new_graph w)) = Suc (allocated w)"
  "ticks (snd (new_graph w)) = ticks w"
  by (simp_all add: new_graph_def)

lemma create_subsampled_graph_eq:
  "create_subsampled_graph w graph T =
     (let w2 = snd (subsample_loop (graphs (snd (new_graph w)) graph) T (allocated w) (snd (new_graph w)))
      in case fst (subsample_loop (graphs (snd (new_graph w)) graph) T (allocated w) (snd (new_graph w))) of
           Some e \<Rightarrow> (Inl e, w2)
         | None \<Rightarrow> (Inr (allocated w), w2))"
  by (simp add: create_subsampled_graph_def new_graph_def Let_def split: prod.splits option.splits)

lemma create_subsampled_graph_preserves:
  "preserves_graphs w (snd (create_subsampled_graph w graph T))"
  by (auto simp: create_subsampled_graph_eq Let_def preserves_graphs_def subsample_loop_allocated
      subsample_loop_other new_graph_simps split: option.splits)

lemma create_subsampled_graph_returns:
  assumes "graph < allocated w" and "well_formed_subjects (graphs w graph)"
  shows "fst (create_subsampled_graph w graph T) = Inr (allocated w)"
    and "set (graphs (snd (create_subsampled_graph w graph T)) (allocated w)) =
           {t \<in> set (graphs w graph). kept T t}"
proof -
  let ?w1 = "snd (new_graph w)"
  have g: "graphs ?w1 graph = graphs w graph"
    using assms(1) by (simp add: new_graph_simps)
  have e: "graphs ?w1 (allocated w) = []"
    by (simp add: new_graph_simps)
  note r = subsample_loop_returns [of "graphs ?w1 graph" T "allocated w" ?w1, unfolded g, OF assms(2)]
  show "fst (create_subsampled_graph w graph T) = Inr (allocated w)"
    using r by (simp add: create_subsampled_graph_eq g Let_def)
  show "set (graphs (snd (create_subsampled_graph w graph T)) (allocated w)) =
           {t \<in> set (graphs w graph). kept T t}"
    using r e by (simp add: create_subsampled_graph_eq g Let_def)
qed

lemma create_subsampled_graph_raises:
  assumes "graph < allocated w" and "\<not> well_formed_subjects (graphs w graph)"
  shows "fst (create_subsampled_graph w graph T) = Inl ValueError"
proof -
  let ?w1 = "snd (new_graph w)"
  have g: "graphs ?w1 graph = graphs w graph"
    using assms(1) by (simp add: new_graph_simps)
  note r = subsample_loop_raises [of "graphs ?w1 graph" T "allocated w" ?w1, unfolded g, OF assms(2)]
  show ?thesis using r by (simp add: create_subsampled_graph_eq g Let_def)
qed

text \<open>
  C2 (as amended). For every store, every existing graph object and every threshold T:
  when every subject of the graph that contains \<open>user/\<close> ends, after its last \<open>/\<close>, in
  text that \<open>int\<close> accepts, the subsampler returns a graph object whose triples are
  exactly the input's triples with a \<open>user/\<close> subject and identifier at most T, together
  with all of the input's triples with a dimension subject; on any other graph it raises
  ValueError and returns no graph.
\<close>

theorem subsample_contents:
  assumes "graph < allocated w"
  shows "(well_formed_subjects (graphs w graph) \<longrightarrow>
            (\<exists>sub_g w'. create_subsampled_graph w graph T = (Inr sub_g, w') \<and>
               set (graphs w' sub_g) =
                 {t \<in> set (graphs w graph).
                    person_rooted t \<and> (\<exists>i. row_identifier t = Some i \<and> i \<le> T)}
                 \<union> {t \<in> set (graphs w graph). dimension_rooted t}))
       \<and> (\<not> well_formed_subjects (graphs w graph) \<longrightarrow>
            fst (create_subsampled_graph w graph T) = Inl ValueError)"
proof (intro conjI impI)
  assume wf: "well_formed_subjects (graphs w graph)"
  let ?r = "create_subsampled_graph w graph T"
  have "?r = (Inr (allocated w), snd ?r)"
    using create_subsampled_graph_returns(1) [OF assms wf, of T] by (metis prod.collapse)
  moreover have "set (graphs (snd ?r) (allocated w)) =
      {t \<in> set (graphs w graph). person_rooted t \<and> (\<exists>i. row_identifier t = Some i \<and> i \<le> T)}
      \<union> {t \<in> set (graphs w graph). dimension_rooted t}"
    unfolding create_subsampled_graph_returns(2) [OF assms wf] by (auto simp: kept_def)
  ultimately show "\<exists>sub_g w'. ?r = (Inr sub_g, w') \<and>
               set (graphs w' sub_g) =
                 {t \<in> set (graphs w graph).
                    person_rooted t \<and> (\<exists>i. row_identifier t = Some i \<and> i \<le> T)}
                 \<union> {t \<in> set (graphs w graph). dimension_rooted t}"
    by blast
next
  assume "\<not> well_formed_subjects (graphs w graph)"
  then show "fst (create_subsampled_graph w graph T) = Inl ValueError"
    by (rule create_subsampled_graph_raises [OF assms])
qed

lemma small_graph_facts:
  "person_rooted (MH ''user/1'', RDF_type, MH ''Person'')"
  "row_identifier (MH ''user/1'', RDF_type, MH ''Person'') = Some 1"
  "person_rooted (MH ''user/20000'', RDF_type, MH ''Person'')"
  "row_identifier (MH ''user/20000'', RDF_type, MH ''Person'') = Some 20000"
  "\<not> dimension_rooted (MH ''user/20000'', RDF_type, MH ''Person'')"
  "\<not> person_rooted (MH ''gender/1'', RDF_type, MH ''Gender'')"
  "dimension_rooted (MH ''gender/1'', RDF_type, MH ''Gender'')"
  "\<not> person_rooted (MH ''measurement/1'', RDF_type, MH ''Measurement'')"
  "\<not> dimension_rooted (MH ''measurement/1'', RDF_type, MH ''Measurement'')"
  by (simp_all add: person_rooted_def row_identifier_def dimension_rooted_def dimension_subject_def
      MH_def py_int_def py_strip_def py_isspace_def py_digits_def py_isdigit_def max_str_digits_def)

text \<open>
  The amended C2 on the small graph with threshold 10000: the Person with identifier 1
  and the gender entity are kept, the Person with identifier 20000 and the Measurement
  are not.
\<close>

theorem subsample_contents_witness:
  "\<exists>sub_g w'. create_subsampled_graph (loaded_world small_graph) 0 10000 = (Inr sub_g, w') \<and>
      set (graphs w' sub_g) =
        {(MH ''user/1'', RDF_type, MH ''Person''), (MH ''gender/1'', RDF_type, MH ''Gender'')}"
proof -
  have a: "(0::nat) < allocated (loaded_world small_graph)"
    by (simp add: loaded_world_def)
  have g: "graphs (loaded_world small_graph) 0 = small_graph"
    by (simp add: loaded_world_def)
  have wf: "well_formed_subjects small_graph"
    by (simp add: well_formed_subjects_def small_graph_def small_graph_facts)
  have s: "{t \<in> set small_graph.
              person_rooted t \<and> (\<exists>i. row_identifier t = Some i \<and> i \<le> 10000)}
           \<union> {t \<in> set small_graph. dimension_rooted t}
         = {(MH ''user/1'', RDF_type, MH ''Person''), (MH ''gender/1'', RDF_type, MH ''Gender'')}"
    by (auto simp: small_graph_def small_graph_facts)
  from subsample_contents [OF a, of 10000] wf show ?thesis
    unfolding g s by blast
qed

text \<open>
  C2 as stated fails: on a graph whose Person has the identifier \<open>U1\<close> the subsampler
  returns no subgraph; \<open>int('U1')\<close> raises ValueError.
\<close>

theorem subsample_raises_on_text_identifier:
  "fst (create_subsampled_graph (loaded_world text_id_graph) 0 10000) = Inl ValueError"
  by (simp add: create_subsampled_graph_def new_graph_def loaded_world_def text_id_graph_def
      MH_def py_int_def py_strip_def py_isspace_def py_digits_def py_isdigit_def)

subsection \<open>What the runner writes\<close>

text \<open>
  The runner's own code writes to a graph in one place, the \<open>sub_g.add\<close> of the
  subsampler, and only into the graph object the subsampler has just created. Whether
  evaluating a query changes a graph is decided by the engine: timing a query leaves the
  graphs as the engine's call left them, and the lemmas on the loops are stated for an
  engine that leaves the existing graphs as they are: the runner then adds no change of
  its own.
\<close>

lemma time_time_preserves: "preserves_graphs w (snd (time_time now w))"
  by (simp add: time_time_def preserves_graphs_def)

lemma ticks_preserves: "preserves_graphs w (w\<lparr>ticks := k\<rparr>)"
  by (simp add: preserves_graphs_def)

lemma measure_query_time_eq:
  "measure_query_time now query w g name q =
     (case query (w\<lparr>ticks := Suc (ticks w)\<rparr>) g q of
        (Inl e, w2) \<Rightarrow> (Inl e, w2)
      | (Inr result, w2) \<Rightarrow>
          (Inr \<lparr>query_name = name,
                execution_time = now (ticks w2) - now (ticks w),
                row_count = length result\<rparr>, w2\<lparr>ticks := Suc (ticks w2)\<rparr>))"
  by (simp add: measure_query_time_def time_time_def split: prod.splits sum.splits)

lemma measure_query_time_graphs:
  "graphs (snd (measure_query_time now query w g name q)) =
     graphs (snd (query (w\<lparr>ticks := Suc (ticks w)\<rparr>) g q))"
  by (simp add: measure_query_time_eq split: prod.splits sum.splits)

lemma measure_query_time_preserves:
  assumes "read_only query"
  shows "preserves_graphs w (snd (measure_query_time now query w g name q))"
proof -
  let ?w1 = "w\<lparr>ticks := Suc (ticks w)\<rparr>"
  obtain res w2 where q: "query ?w1 g q = (res, w2)" by (cases "query ?w1 g q")
  have 1: "preserves_graphs w ?w1" by (rule ticks_preserves)
  have 2: "preserves_graphs ?w1 w2"
    using assms q unfolding read_only_def by (metis snd_conv)
  have 12: "preserves_graphs w w2" by (rule preserves_graphs_trans [OF 1 2])
  have 123: "preserves_graphs w (w2\<lparr>ticks := Suc (ticks w2)\<rparr>)"
    by (rule preserves_graphs_trans [OF 12 ticks_preserves])
  show ?thesis
    using 12 123 by (cases res) (simp_all add: measure_query_time_eq q)
qed

lemma run_queries_preserves:
  assumes "read_only query"
  shows "preserves_graphs w (snd (run_queries now query w g qs))"
proof (induction qs arbitrary: w)
  case Nil
  show ?case by (simp add: preserves_graphs_refl)
next
  case (Cons nq qs)
  obtain name q where nq: "nq = (name, q)" by (cases nq)
  obtain r w1 where m: "measure_query_time now query w g name q = (r, w1)"
    by (cases "measure_query_time now query w g name q")
  have 1: "preserves_graphs w w1"
    using measure_query_time_preserves [OF assms, of w now g name q] m by simp
  show ?case
  proof (cases r)
    case (Inl e)
    with m 1 show ?thesis by (simp add: nq)
  next
    case (Inr b)
    have 2: "preserves_graphs w1 (snd (run_queries now query w1 g qs))" by (rule Cons.IH)
    have "preserves_graphs w (snd (run_queries now query w1 g qs))"
      by (rule preserves_graphs_trans [OF 1 2])
    with m Inr show ?thesis
      by (auto simp: nq split: prod.splits sum.splits)
  qed
qed

lemma scalability_preserves:
  assumes "read_only query"
  shows "preserves_graphs w (snd (scalability now query w g qs szs acc))"
proof (induction szs arbitrary: w acc)
  case Nil
  show ?case by (simp add: preserves_graphs_refl)
next
  case (Cons sz szs)
  obtain r w1 where c: "create_subsampled_graph w g sz = (r, w1)"
    by (cases "create_subsampled_graph w g sz")
  have 1: "preserves_graphs w w1"
    using create_subsampled_graph_preserves [of w g sz] c by simp
  show ?case
  proof (cases r)
    case (Inl e)
    with c 1 show ?thesis by simp
  next
    case (Inr sub_g)
    obtain r2 w2 where q: "run_queries now query w1 sub_g qs = (r2, w2)"
      by (cases "run_queries now query w1 sub_g qs")
    have 2: "preserves_graphs w1 w2"
      using run_queries_preserves [OF assms, of w1 now sub_g qs] q by simp
    have 12: "preserves_graphs w w2" by (rule preserves_graphs_trans [OF 1 2])
    show ?thesis
    proof (cases r2)
      case (Inl e)
      with c Inr q 12 show ?thesis by simp
    next
      case r2: (Inr benchmarks)
      have "preserves_graphs w2
              (snd (scalability now query w2 g qs szs (dict_set acc sz benchmarks)))"
        by (rule Cons.IH)
      with 12 have "preserves_graphs w
              (snd (scalability now query w2 g qs szs (dict_set acc sz benchmarks)))"
        by (rule preserves_graphs_trans)
      with c Inr q r2 show ?thesis by simp
    qed
  qed
qed

lemma run_benchmarks_preserves:
  assumes "read_only query"
  shows "preserves_graphs w (snd (run_benchmarks now query w g qs szs))"
proof -
  obtain r w1 where q: "run_queries now query w g qs = (r, w1)"
    by (cases "run_queries now query w g qs")
  have 1: "preserves_graphs w w1"
    using run_queries_preserves [OF assms, of w now g qs] q by simp
  show ?thesis
  proof (cases r)
    case (Inl e)
    with q 1 show ?thesis by (simp add: run_benchmarks_def)
  next
    case (Inr benchmarks_full)
    have "preserves_graphs w1 (snd (scalability now query w1 g qs szs []))"
      by (rule scalability_preserves [OF assms])
    with 1 have "preserves_graphs w (snd (scalability now query w1 g qs szs []))"
      by (rule preserves_graphs_trans)
    with q Inr show ?thesis
      by (auto simp: run_benchmarks_def split: prod.splits sum.splits)
  qed
qed

lemma create_subsampled_graph_fresh:
  "fst (create_subsampled_graph w g T) = Inr sub_g \<Longrightarrow> sub_g = allocated w"
  by (simp add: create_subsampled_graph_eq Let_def split: option.splits)

subsection \<open>A failing query\<close>

lemma measure_query_time_raises:
  assumes "query (w\<lparr>ticks := Suc (ticks w)\<rparr>) g q = (Inl e, w2)"
  shows "measure_query_time now query w g name q = (Inl e, w2)"
  using assms by (simp add: measure_query_time_eq)

lemma run_queries_raises:
  assumes "run_queries now query w g pre = (Inr bs, w1)"
    and "measure_query_time now query w1 g name q = (Inl e, w2)"
  shows "run_queries now query w g (pre @ (name, q) # post) = (Inl e, w2)"
  using assms(1)
proof (induction pre arbitrary: w bs)
  case Nil
  then have "w1 = w" by simp
  with assms(2) show ?case by simp
next
  case (Cons nq pre)
  obtain name' q' where nq: "nq = (name', q')" by (cases nq)
  obtain r wa where m: "measure_query_time now query w g name' q' = (r, wa)"
    by (cases "measure_query_time now query w g name' q'")
  obtain r' wb where p: "run_queries now query wa g pre = (r', wb)"
    by (cases "run_queries now query wa g pre")
  from Cons.prems obtain b where r: "r = Inr b"
    by (cases r) (simp_all add: nq m)
  from Cons.prems obtain bs' where r': "r' = Inr bs'" and wb: "wb = w1"
    by (cases r') (simp_all add: nq m r p)
  have "run_queries now query wa g (pre @ (name, q) # post) = (Inl e, w2)"
    using p unfolding r' wb by (rule Cons.IH)
  then show ?case by (simp add: nq m r)
qed

lemma run_benchmarks_raises:
  assumes "run_queries now query w g qs = (Inl e, w2)"
  shows "run_benchmarks now query w g qs szs = (Inl e, w2)"
  using assms by (simp add: run_benchmarks_def)

lemma scalability_raises:
  assumes "create_subsampled_graph w g sz = (Inr sub_g, w1)"
    and "run_queries now query w1 sub_g qs = (Inl e, w2)"
  shows "scalability now query w g qs (sz # rest) acc = (Inl e, w2)"
  using assms by simp

text \<open>
  C7 (as amended). Nothing catches an exception of the engine. Let the queries \<open>pre\<close>
  that come before a query \<open>q\<close> in the catalog be timed without an exception on the
  loaded graph, leaving the store \<open>w1\<close>, and let the engine raise \<open>e\<close> when \<open>q\<close> is run
  next, leaving the store \<open>w2\<close>. Then \<open>measure_query_time\<close> raises \<open>e\<close> for \<open>q\<close>, and
  so do the loop over the catalog and the whole benchmark run, and each of them ends in
  the store \<open>w2\<close> the failing call left: whatever queries \<open>post\<close> follow \<open>q\<close> in the
  catalog and whatever the subsample sizes are, none of them is run (the clock is not
  read again, the engine is not called again, no subsample is built), and no list of
  benchmarks is returned, not even for the queries timed before \<open>q\<close>.
\<close>

theorem query_failure_aborts_run:
  assumes "run_queries now query w g pre = (Inr bs, w1)"
    and "query (w1\<lparr>ticks := Suc (ticks w1)\<rparr>) g q = (Inl e, w2)"
  shows "measure_query_time now query w1 g name q = (Inl e, w2)
       \<and> run_queries now query w g (pre @ (name, q) # post) = (Inl e, w2)
       \<and> run_benchmarks now query w g (pre @ (name, q) # post) szs = (Inl e, w2)"
proof -
  have m: "measure_query_time now query w1 g name q = (Inl e, w2)"
    using assms(2) by (rule measure_query_time_raises)
  have r: "run_queries now query w g (pre @ (name, q) # post) = (Inl e, w2)"
    using assms(1) m by (rule run_queries_raises)
  have b: "run_benchmarks now query w g (pre @ (name, q) # post) szs = (Inl e, w2)"
    using r by (rule run_benchmarks_raises)
  from m r b show ?thesis by simp
qed

lemma other_queries_differ:
  "roll_up_sleep_by_country \<noteq> slice_high_stress"
  "drill_down_work_by_country_gender \<noteq> slice_high_stress"
  by (simp_all add: roll_up_sleep_by_country_def drill_down_work_by_country_gender_def
      slice_high_stress_def)

text \<open>
  The amended C7 with the engine on which \<open>slice_high_stress\<close>, the third query of the
  catalog, raises: the first two queries are timed (four readings of the clock), the
  third reads the clock once and raises, and the run ends there.
\<close>

theorem query_failure_aborts_run_witness:
  "run_queries real failing_engine (loaded_world small_graph) 0
       [(''roll_up_sleep_by_country'', roll_up_sleep_by_country),
        (''drill_down_work_by_country_gender'', drill_down_work_by_country_gender)]
     = (Inr [\<lparr>query_name = ''roll_up_sleep_by_country'', execution_time = 1, row_count = 0\<rparr>,
             \<lparr>query_name = ''drill_down_work_by_country_gender'', execution_time = 1,
              row_count = 0\<rparr>],
        (loaded_world small_graph)\<lparr>ticks := 4\<rparr>)
   \<and> failing_engine ((loaded_world small_graph)\<lparr>ticks := 5\<rparr>) 0 slice_high_stress
     = (Inl (QueryError ''type mismatch''), (loaded_world small_graph)\<lparr>ticks := 5\<rparr>)
   \<and> run_benchmarks real failing_engine (loaded_world small_graph) 0 queries sizes
     = (Inl (QueryError ''type mismatch''), (loaded_world small_graph)\<lparr>ticks := 5\<rparr>)"
proof -
  let ?W = "loaded_world small_graph"
  let ?pre = "[(''roll_up_sleep_by_country'', roll_up_sleep_by_country),
        (''drill_down_work_by_country_gender'', drill_down_work_by_country_gender)]"
  let ?bs = "[\<lparr>query_name = ''roll_up_sleep_by_country'', execution_time = 1, row_count = 0\<rparr>,
             \<lparr>query_name = ''drill_down_work_by_country_gender'', execution_time = 1,
              row_count = 0\<rparr>]"
  have p: "run_queries real failing_engine ?W 0 ?pre = (Inr ?bs, ?W\<lparr>ticks := 4\<rparr>)"
    by (simp add: measure_query_time_eq failing_engine_def other_queries_differ
        loaded_world_def)
  have q: "failing_engine (?W\<lparr>ticks := 4\<rparr>\<lparr>ticks := Suc (ticks (?W\<lparr>ticks := 4\<rparr>))\<rparr>) 0
             slice_high_stress
           = (Inl (QueryError ''type mismatch''), ?W\<lparr>ticks := 5\<rparr>)"
    by (simp add: failing_engine_def)
  have c: "queries = ?pre @ (''slice_high_stress'', slice_high_stress)
             # [(''dice_medium_severity_australia'', dice_medium_severity_australia)]"
    by (simp add: queries_def)
  have q': "failing_engine (?W\<lparr>ticks := 5\<rparr>) 0 slice_high_stress
           = (Inl (QueryError ''type mismatch''), ?W\<lparr>ticks := 5\<rparr>)"
    by (simp add: failing_engine_def)
  have "run_benchmarks real failing_engine ?W 0 queries sizes
     = (Inl (QueryError ''type mismatch''), ?W\<lparr>ticks := 5\<rparr>)"
    unfolding c using query_failure_aborts_run [OF p q] by simp
  with p q' show ?thesis by simp
qed

text \<open>
  C7 as stated fails: when the third query raises, the loop over the catalog and the
  whole run end with that exception. The clock has been read five times (twice for each
  of the first two queries, once for the third), so the fourth query is never timed; the
  store still holds one graph object, so no subsample is built; and no entry is returned
  for any query.
\<close>

theorem failing_query_stops_everything:
  "fst (run_queries real failing_engine (loaded_world small_graph) 0 queries)
     = Inl (QueryError ''type mismatch'')
   \<and> fst (run_benchmarks real failing_engine (loaded_world small_graph) 0 queries sizes)
     = Inl (QueryError ''type mismatch'')
   \<and> ticks (snd (run_benchmarks real failing_engine (loaded_world small_graph) 0 queries sizes))
     = 5
   \<and> allocated (snd (run_benchmarks real failing_engine (loaded_world small_graph) 0 queries
        sizes)) = 1"
  by (simp add: run_benchmarks_def queries_def measure_query_time_eq failing_engine_def
      other_queries_differ loaded_world_def)

subsection \<open>Subjects the subsampler never keeps\<close>

text \<open>
  The markers of the subsampler all end in \<open>/\<close>, so a marker that occurs in a URI
  followed by text without \<open>/\<close> already occurs in the URI. The URIs of MentalHealth,
  Lifestyle and Measurement entities contain none of the markers: their triples are in
  no subsample.
\<close>

lemma startswith_iff: "startswith n h \<longleftrightarrow> (\<exists>s. h = n @ s)"
  by (induction n h rule: startswith.induct) auto

lemma contains_iff: "contains n h \<longleftrightarrow> (\<exists>p s. h = p @ n @ s)"
proof (induction h)
  case Nil
  show ?case by auto
next
  case (Cons c cs)
  show ?case
  proof
    assume "contains n (c # cs)"
    then consider "startswith n (c # cs)" | "contains n cs" by auto
    then show "\<exists>p s. c # cs = p @ n @ s"
    proof cases
      case 1
      then obtain s where "c # cs = n @ s" by (auto simp: startswith_iff)
      then have "c # cs = [] @ n @ s" by simp
      then show ?thesis by blast
    next
      case 2
      with Cons obtain p s where "cs = p @ n @ s" by blast
      then have "c # cs = (c # p) @ n @ s" by simp
      then show ?thesis by blast
    qed
  next
    assume "\<exists>p s. c # cs = p @ n @ s"
    then obtain p s where e: "c # cs = p @ n @ s" by blast
    show "contains n (c # cs)"
    proof (cases p)
      case Nil
      with e have "startswith n (c # cs)" by (auto simp: startswith_iff)
      then show ?thesis by simp
    next
      case (Cons a p')
      with e have "cs = p' @ n @ s" by simp
      with Cons.IH have "contains n cs" by blast
      then show ?thesis by simp
    qed
  qed
qed

lemma contains_append_tail:
  assumes "c \<notin> set d"
  shows "contains (n @ [c]) (a @ d) \<longleftrightarrow> contains (n @ [c]) a"
proof
  assume "contains (n @ [c]) a"
  then show "contains (n @ [c]) (a @ d)"
    by (auto simp: contains_iff) (metis append.assoc)
next
  assume "contains (n @ [c]) (a @ d)"
  then obtain p s where e: "a @ d = p @ (n @ [c]) @ s" by (auto simp: contains_iff)
  then have e': "a @ d = (p @ n) @ c # s" by simp
  have "\<exists>us. (a = (p @ n) @ us \<and> us @ d = c # s) \<or> (a @ us = p @ n \<and> d = us @ c # s)"
    using e' by (simp only: append_eq_append_conv2)
  then obtain us where
    "(a = (p @ n) @ us \<and> us @ d = c # s) \<or> (a @ us = p @ n \<and> d = us @ c # s)" ..
  then show "contains (n @ [c]) a"
  proof
    assume 1: "a = (p @ n) @ us \<and> us @ d = c # s"
    show ?thesis
    proof (cases us)
      case Nil
      with 1 have "d = c # s" by simp
      with assms show ?thesis by simp
    next
      case (Cons x us')
      with 1 have "x = c" by simp
      with 1 Cons have "a = p @ (n @ [c]) @ us'" by simp
      then have "\<exists>p' s'. a = p' @ (n @ [c]) @ s'" by (intro exI)
      then show ?thesis by (simp only: contains_iff)
    qed
  next
    assume "a @ us = p @ n \<and> d = us @ c # s"
    then have "c \<in> set d" by simp
    with assms show ?thesis by simp
  qed
qed

lemma digit_char_not_slash: "d < 10 \<Longrightarrow> digit_char d \<noteq> CHR ''/''"
proof
  assume d: "d < 10" and "digit_char d = CHR ''/''"
  then have "(of_char (digit_char d) :: nat) = of_char CHR ''/''" by simp
  then have "48 + d = (47::nat)" unfolding of_char_digit_char [OF d] by simp
  then show False by simp
qed

lemma no_slash_in_str_nat: "CHR ''/'' \<notin> set (str_nat n)"
proof (induction n rule: str_nat.induct)
  case (1 n)
  show ?case
  proof (cases "n < 10")
    case True
    then have "str_nat n = [digit_char n]" by (subst str_nat.simps) simp
    with digit_char_not_slash [OF True] show ?thesis by simp
  next
    case False
    then have e: "str_nat n = str_nat (n div 10) @ [digit_char (n mod 10)]"
      by (subst str_nat.simps) simp
    from False 1 have "CHR ''/'' \<notin> set (str_nat (n div 10))" by simp
    moreover have "digit_char (n mod 10) \<noteq> CHR ''/''"
      by (rule digit_char_not_slash) simp
    ultimately show ?thesis unfolding e by simp
  qed
qed

lemma no_marker_without_slash:
  assumes "CHR ''/'' \<notin> set d"
  shows "\<not> contains ''user/'' d" "\<not> contains ''gender/'' d" "\<not> contains ''occupation/'' d"
    "\<not> contains ''country/'' d" "\<not> contains ''severity/'' d" "\<not> contains ''consultation/'' d"
    "\<not> contains ''stress/'' d" "\<not> contains ''medication/'' d" "\<not> contains ''diet/'' d"
    "\<not> contains ''smoking/'' d" "\<not> contains ''alcohol/'' d"
  using contains_append_tail [OF assms, of "''user''" "[]"]
    contains_append_tail [OF assms, of "''gender''" "[]"]
    contains_append_tail [OF assms, of "''occupation''" "[]"]
    contains_append_tail [OF assms, of "''country''" "[]"]
    contains_append_tail [OF assms, of "''severity''" "[]"]
    contains_append_tail [OF assms, of "''consultation''" "[]"]
    contains_append_tail [OF assms, of "''stress''" "[]"]
    contains_append_tail [OF assms, of "''medication''" "[]"]
    contains_append_tail [OF assms, of "''diet''" "[]"]
    contains_append_tail [OF assms, of "''smoking''" "[]"]
    contains_append_tail [OF assms, of "''alcohol''" "[]"]
  by simp_all

lemma fact_subjects_not_kept:
  assumes "CHR ''/'' \<notin> set d"
  shows "\<not> kept T (MH (''mental_health/'' @ d), p, ob)"
    and "\<not> kept T (MH (''lifestyle/'' @ d), p, ob)"
    and "\<not> kept T (MH (''measurement/'' @ d), p, ob)"
  using no_marker_without_slash [OF assms]
  by (simp_all add: kept_def person_rooted_def dimension_rooted_def dimension_subject_def MH_def)

lemma subsample_drops_fact_entities:
  assumes "g < allocated w" and "create_subsampled_graph w g T = (Inr sub_g, w')"
  shows "(MH (''mental_health/'' @ str_nat k), p, ob) \<notin> set (graphs w' sub_g)"
    and "(MH (''lifestyle/'' @ str_nat k), p, ob) \<notin> set (graphs w' sub_g)"
    and "CHR ''/'' \<notin> set uid \<Longrightarrow> (MH (''measurement/'' @ uid), p, ob) \<notin> set (graphs w' sub_g)"
proof -
  have wf: "well_formed_subjects (graphs w g)"
  proof (rule ccontr)
    assume "\<not> well_formed_subjects (graphs w g)"
    from create_subsampled_graph_raises [OF assms(1) this, of T] assms(2)
    show False by simp
  qed
  have s: "sub_g = allocated w" "w' = snd (create_subsampled_graph w g T)"
    using create_subsampled_graph_returns(1) [OF assms(1) wf, of T] assms(2) by simp_all
  have k: "set (graphs w' sub_g) = {t \<in> set (graphs w g). kept T t}"
    unfolding s by (rule create_subsampled_graph_returns(2) [OF assms(1) wf])
  show "(MH (''mental_health/'' @ str_nat k), p, ob) \<notin> set (graphs w' sub_g)"
    unfolding k using fact_subjects_not_kept(1) [OF no_slash_in_str_nat] by simp
  show "(MH (''lifestyle/'' @ str_nat k), p, ob) \<notin> set (graphs w' sub_g)"
    unfolding k using fact_subjects_not_kept(2) [OF no_slash_in_str_nat] by simp
  show "(MH (''measurement/'' @ uid), p, ob) \<notin> set (graphs w' sub_g)"
    if "CHR ''/'' \<notin> set uid"
    unfolding k using fact_subjects_not_kept(3) [OF that] by simp
qed

end
